theory Spec2Isabelle
  imports Complex_Main
begin

text \<open>
  An embedding of \<open>script.js\<close>, the script of a dashboard of price charts: the fetcher
  with its retry loop and its normalization of the upstream document, the axis labels,
  the chart and price display, and the handlers that decide between a new fetch and the
  cached series. Functions keep the names they have in the script. The handlers are
  asynchronous functions; here each runs to its end before the next starts.
\<close>

section \<open>Values read from the upstream document\<close>

text \<open>
  A JavaScript number is an IEEE 754 double: a finite value (held here as the exact
  rational it denotes, \<open>Fin 0\<close> being \<open>+0\<close>), negative zero, an infinity or NaN.
\<close>

datatype jsnum = Fin rat | NegZero | PosInf | NegInf | NaN

text \<open>
  A cell is what \<open>opens[i]\<close> or \<open>result.meta.regularMarketPrice\<close> evaluates to: a
  number, \<open>null\<close> (the upstream arrays permit it) or \<open>undefined\<close> (an index past the end
  of the array, a property that is not there).
\<close>

datatype cell = Undefined | Null | Num jsnum

text \<open>
  An argument that is a string, \<open>null\<close> or \<open>undefined\<close>: the \<open>range\<close>, \<open>interval\<close> and
  \<open>type\<close> parameters of the handlers.
\<close>

datatype strval = SUndefined | SNull | SStr string

fun truthy :: "strval \<Rightarrow> bool" where
  "truthy (SStr s) = (s \<noteq> [])"
| "truthy _ = False"

text \<open>String conversion inside a template literal.\<close>

fun to_template :: "strval \<Rightarrow> string" where
  "to_template (SStr s) = s"
| "to_template SNull = ''null''"
| "to_template SUndefined = ''undefined''"

text \<open>The default value of a parameter replaces \<open>undefined\<close> only.\<close>

fun default_param :: "string \<Rightarrow> strval \<Rightarrow> strval" where
  "default_param d SUndefined = SStr d"
| "default_param d v = v"

section \<open>The series fetcher: \<open>fetchStockData\<close>\<close>

text \<open>
  One element of \<open>validData\<close>: \<open>{ time, o, h, l, c }\<close>. Timestamps are whole seconds
  since the epoch, as the upstream interface has them; they are kept as integers.
\<close>

record item =
  item_time :: int
  item_o :: cell
  item_h :: cell
  item_l :: cell
  item_c :: cell

text \<open>The object \<open>fetchStockData\<close> returns on success.\<close>

record series =
  ohlc :: "item list"
  prices :: "cell list"
  timestamps :: "int list"
  currentPrice :: cell
  prevClose :: cell
  lastUpdated :: "int option"
  name :: string

text \<open>
  The parsed response body, up to the shape the code reads. \<open>None\<close> stands for a
  property that is missing (or \<open>null\<close>): \<open>result.timestamp\<close> and the four arrays of
  \<open>quote[0]\<close> then fall back to \<open>[]\<close>, while a missing \<open>meta\<close>, a missing
  \<open>indicators.quote[0]\<close> or a missing \<open>chart.result[0]\<close> makes the property access
  that follows throw a TypeError.
\<close>

record quote =
  q_open :: "cell list option"
  q_high :: "cell list option"
  q_low :: "cell list option"
  q_close :: "cell list option"

record meta =
  regularMarketPrice :: cell
  chartPreviousClose :: cell
  shortName :: "string option"
  longName :: "string option"

record chart_result =
  timestamp :: "int list option"
  indicators_quote0 :: "quote option"
  result_meta :: "meta option"

text \<open>
  What one \<open>fetch\<close> of the relay can do: the promise rejects, the status is not ok,
  \<open>response.json()\<close> rejects, or a document arrives whose \<open>chart.result[0]\<close> is
  there (\<open>Some\<close>) or not (\<open>None\<close>).
\<close>

datatype response =
    FetchRejected
  | NotOk
  | JsonRejected
  | Json "chart_result option"

datatype js_error = NetworkError | ErrorNotOk | SyntaxError | TypeError

text \<open>\<open>xs[i]\<close> on an array: \<open>undefined\<close> past the end.\<close>

definition at_index :: "cell list \<Rightarrow> nat \<Rightarrow> cell" where
  "at_index xs i = (if i < length xs then xs ! i else Undefined)"

text \<open>\<open>x || []\<close> for an array that may be missing.\<close>

fun or_empty :: "'a list option \<Rightarrow> 'a list" where
  "or_empty None = []"
| "or_empty (Some xs) = xs"

text \<open>\<open>shortName || longName || symbol\<close>: the empty string is falsy.\<close>

definition truthy_name :: "string option \<Rightarrow> bool" where
  "truthy_name v = (case v of None \<Rightarrow> False | Some s \<Rightarrow> s \<noteq> [])"

definition stock_name :: "string option \<Rightarrow> string option \<Rightarrow> string \<Rightarrow> string" where
  "stock_name short long symbol =
     (if truthy_name short then the short
      else if truthy_name long then the long
      else symbol)"

text \<open>\<open>timestamps.map((t, i) => ({time: t, o: opens[i], ...}))\<close>\<close>

definition pair_items ::
  "int list \<Rightarrow> cell list \<Rightarrow> cell list \<Rightarrow> cell list \<Rightarrow> cell list \<Rightarrow> item list" where
  "pair_items ts opens highs lows closes =
     map (\<lambda>(i, t). \<lparr> item_time = t, item_o = at_index opens i, item_h = at_index highs i,
                       item_l = at_index lows i, item_c = at_index closes i \<rparr>)
         (enumerate 0 ts)"

text \<open>\<open>.filter(item => item.c !== null && item.o !== null)\<close>\<close>

definition basic_validation :: "item \<Rightarrow> bool" where
  "basic_validation it = (item_c it \<noteq> Null \<and> item_o it \<noteq> Null)"

text \<open>Lines 95 to 126: from \<open>result\<close> to the returned object.\<close>

definition normalize_result :: "string \<Rightarrow> chart_result \<Rightarrow> js_error + series" where
  "normalize_result symbol result =
     (let ts = or_empty (timestamp result) in
      case indicators_quote0 result of
        None \<Rightarrow> Inl TypeError
      | Some quotes \<Rightarrow>
          (let opens = or_empty (q_open quotes);
               highs = or_empty (q_high quotes);
               lows = or_empty (q_low quotes);
               closes = or_empty (q_close quotes);
               validData = filter basic_validation (pair_items ts opens highs lows closes)
           in case result_meta result of
                None \<Rightarrow> Inl TypeError
              | Some m \<Rightarrow>
                  Inr \<lparr> ohlc = validData,
                        prices = map item_c validData,
                        timestamps = map item_time validData,
                        currentPrice = regularMarketPrice m,
                        prevClose = chartPreviousClose m,
                        lastUpdated = (if length validData > 0
                                       then Some (item_time (validData ! (length validData - 1)))
                                       else None),
                        name = stock_name (shortName m) (longName m) symbol \<rparr>))"

text \<open>The body of the \<open>try\<close> block, given what the relay answered.\<close>

fun attempt :: "string \<Rightarrow> response \<Rightarrow> js_error + series" where
  "attempt symbol FetchRejected = Inl NetworkError"
| "attempt symbol NotOk = Inl ErrorNotOk"
| "attempt symbol JsonRejected = Inl SyntaxError"
| "attempt symbol (Json None) = Inl TypeError"
| "attempt symbol (Json (Some result)) = normalize_result symbol result"

text \<open>
  The outside world of the fetcher. A request is the symbol, interval and range put
  into the URL. \<open>net k req\<close> is the relay's answer to the \<open>k\<close>-th request made since
  the page started (counting from 0); the trace records every request and every
  \<open>setTimeout\<close> pause of the fetcher in the order they happen, and \<open>console\<close> what
  \<open>console.error\<close> was given.
\<close>

record request =
  req_symbol :: string
  req_interval :: string
  req_range :: string

datatype event = Request request | Wait nat

record world =
  net :: "nat \<Rightarrow> request \<Rightarrow> response"
  trace :: "event list"
  console :: "(string \<times> js_error) list"

fun is_request :: "event \<Rightarrow> bool" where
  "is_request (Request r) = True"
| "is_request (Wait d) = False"

definition attempts_made :: "event list \<Rightarrow> nat" where
  "attempts_made evs = length (filter is_request evs)"

text \<open>\<open>await fetch(...)\<close>: the request is logged and answered.\<close>

definition do_fetch :: "request \<Rightarrow> world \<Rightarrow> response \<times> world" where
  "do_fetch req w =
     (net w (attempts_made (trace w)) req, w\<lparr> trace := trace w @ [Request req] \<rparr>)"

definition do_wait :: "nat \<Rightarrow> world \<Rightarrow> world" where
  "do_wait ms w = w\<lparr> trace := trace w @ [Wait ms] \<rparr>"

text \<open>
  What the call evaluates to: the object, \<open>null\<close>, or \<open>undefined\<close> when the loop ends
  without a \<open>return\<close>.
\<close>

datatype outcome = Data series | NullResult | UndefinedResult

text \<open>The \<open>for\<close> loop of \<open>fetchStockData\<close>, from the iteration \<open>i\<close> on.\<close>

function fetch_loop ::
  "string \<Rightarrow> request \<Rightarrow> int \<Rightarrow> int \<Rightarrow> world \<Rightarrow> outcome \<times> world" where
  "fetch_loop symbol req retries i w =
     (if i \<le> retries then
        (case do_fetch req w of (resp, w1) \<Rightarrow>
           (case attempt symbol resp of
              Inr d \<Rightarrow> (Data d, w1)
            | Inl e \<Rightarrow>
                if i = retries
                then (NullResult, w1\<lparr> console := console w1 @ [(symbol, e)] \<rparr>)
                else fetch_loop symbol req retries (i + 1) (do_wait 500 w1)))
      else (UndefinedResult, w))"
  by pat_completeness auto
termination
  by (relation "measure (\<lambda>(symbol, req, retries, i, w). nat (retries + 1 - i))") auto

declare fetch_loop.simps [simp del]

text \<open>The symbol, interval and range that line 88 puts into the URL.\<close>

definition chart_request :: "string \<Rightarrow> strval \<Rightarrow> strval \<Rightarrow> request" where
  "chart_request symbol rng ivl =
     \<lparr> req_symbol = symbol, req_interval = to_template ivl, req_range = to_template rng \<rparr>"

text \<open>
  \<open>fetchStockData(symbol, range = '1d', interval = '5m', retries = 1)\<close>; a caller that
  leaves \<open>retries\<close> out passes 1.
\<close>

definition fetchStockData ::
  "string \<Rightarrow> strval \<Rightarrow> strval \<Rightarrow> int \<Rightarrow> world \<Rightarrow> outcome \<times> world" where
  "fetchStockData symbol rng ivl retries w =
     fetch_loop symbol
       (chart_request symbol (default_param ''1d'' rng) (default_param ''5m'' ivl))
       retries 0 w"

section \<open>Numbers\<close>

text \<open>Decimal digits of an integer \<open>n \<ge> 0\<close>.\<close>

definition digit_char :: "int \<Rightarrow> char" where
  "digit_char d = ''0123456789'' ! nat d"

function digits :: "int \<Rightarrow> string" where
  "digits n = (if n < 10 then [digit_char n] else digits (n div 10) @ [digit_char (n mod 10)])"
  by pat_completeness auto
termination
  by (relation "measure nat") auto

declare digits.simps [simp del]

subsection \<open>Arithmetic\<close>

definition pow2 :: "int \<Rightarrow> rat" where
  "pow2 k = (if 0 \<le> k then 2 ^ nat k else 1 / 2 ^ nat (- k))"

function bitlen :: "int \<Rightarrow> int" where
  "bitlen n = (if n \<le> 0 then 0 else 1 + bitlen (n div 2))"
  by pat_completeness auto
termination
  by (relation "measure nat") auto

declare bitlen.simps [simp del]

text \<open>\<open>\<lfloor>log\<^sub>2 x\<rfloor>\<close> for \<open>x > 0\<close>.\<close>

definition floor_log2 :: "rat \<Rightarrow> int" where
  "floor_log2 x = (if 1 \<le> x then bitlen \<lfloor>x\<rfloor> - 1 else - bitlen (\<lceil>1 / x\<rceil> - 1))"

definition round_half_even :: "rat \<Rightarrow> int" where
  "round_half_even r =
     (let f = \<lfloor>r\<rfloor>; d = r - of_int f
      in if d < 1 / 2 then f else if 1 / 2 < d then f + 1 else if even f then f else f + 1)"

text \<open>
  The double nearest to a rational (ties to even): 53 significant bits, exponents from
  -1022 to 1023, gradual underflow, overflow to an infinity.
\<close>

definition round_double :: "rat \<Rightarrow> jsnum" where
  "round_double x =
     (if x = 0 then Fin 0
      else
        let a = \<bar>x\<bar>;
            e = max (floor_log2 a) (- 1022);
            q = pow2 (e - 52);
            y = of_int (round_half_even (a / q)) * q
        in if pow2 1024 \<le> y then (if x < 0 then NegInf else PosInf)
           else if y = 0 then (if x < 0 then NegZero else Fin 0)
           else Fin (if x < 0 then - y else y))"

fun is_nan :: "jsnum \<Rightarrow> bool" where
  "is_nan NaN = True"
| "is_nan _ = False"

fun is_inf :: "jsnum \<Rightarrow> bool" where
  "is_inf PosInf = True"
| "is_inf NegInf = True"
| "is_inf _ = False"

fun sign_bit :: "jsnum \<Rightarrow> bool" where
  "sign_bit (Fin r) = (r < 0)"
| "sign_bit NegZero = True"
| "sign_bit NegInf = True"
| "sign_bit _ = False"

text \<open>The real value of a finite number (both zeros are 0).\<close>

fun val :: "jsnum \<Rightarrow> rat" where
  "val (Fin r) = r"
| "val _ = 0"

definition signed_inf :: "bool \<Rightarrow> jsnum" where
  "signed_inf neg = (if neg then NegInf else PosInf)"

definition signed_zero :: "bool \<Rightarrow> jsnum" where
  "signed_zero neg = (if neg then NegZero else Fin 0)"

text \<open>\<open>a - b\<close>\<close>

definition js_sub :: "jsnum \<Rightarrow> jsnum \<Rightarrow> jsnum" where
  "js_sub a b =
     (if is_nan a \<or> is_nan b then NaN
      else if is_inf a then (if a = b then NaN else a)
      else if is_inf b then signed_inf (\<not> sign_bit b)
      else if val a - val b = 0 then signed_zero (a = NegZero \<and> b = Fin 0)
      else round_double (val a - val b))"

text \<open>\<open>a * b\<close>\<close>

definition js_mul :: "jsnum \<Rightarrow> jsnum \<Rightarrow> jsnum" where
  "js_mul a b =
     (let neg = (sign_bit a \<noteq> sign_bit b) in
      if is_nan a \<or> is_nan b then NaN
      else if is_inf a \<or> is_inf b then
        (if (\<not> is_inf a \<and> val a = 0) \<or> (\<not> is_inf b \<and> val b = 0) then NaN else signed_inf neg)
      else if val a * val b = 0 then signed_zero neg
      else round_double (val a * val b))"

text \<open>\<open>a / b\<close>\<close>

definition js_div :: "jsnum \<Rightarrow> jsnum \<Rightarrow> jsnum" where
  "js_div a b =
     (let neg = (sign_bit a \<noteq> sign_bit b) in
      if is_nan a \<or> is_nan b then NaN
      else if is_inf a then (if is_inf b then NaN else signed_inf neg)
      else if is_inf b then signed_zero neg
      else if val b = 0 then (if val a = 0 then NaN else signed_inf neg)
      else if val a = 0 then signed_zero neg
      else round_double (val a / val b))"

text \<open>\<open>a >= b\<close> on numbers.\<close>

fun js_ge :: "jsnum \<Rightarrow> jsnum \<Rightarrow> bool" where
  "js_ge NaN b = False"
| "js_ge a NaN = False"
| "js_ge PosInf b = True"
| "js_ge a NegInf = True"
| "js_ge NegInf b = False"
| "js_ge a PosInf = False"
| "js_ge a b = (val b \<le> val a)"

text \<open>Conversion of a cell to a number: \<open>undefined\<close> is NaN, \<open>null\<close> is 0.\<close>

fun to_number :: "cell \<Rightarrow> jsnum" where
  "to_number Undefined = NaN"
| "to_number Null = Fin 0"
| "to_number (Num x) = x"

subsection \<open>Numbers as strings\<close>

text \<open>The number of decimal digits of a positive integer.\<close>

definition ndigits :: "int \<Rightarrow> nat" where
  "ndigits n = length (digits n)"

text \<open>
  The decimal digits \<open>s\<close> (as a number of \<open>k\<close> digits) and the exponent \<open>n\<close> of the
  shortest decimal \<open>s * 10^(n - k)\<close> that rounds to the double \<open>x \<ge> 10^21\<close>, searched
  from \<open>k\<close> digits up to 17 (which always suffice); of two candidates of the same length
  the closer one. \<open>N\<close> is the number of digits of the integer part of \<open>x\<close>.
\<close>

definition candidate_ok :: "rat \<Rightarrow> int \<Rightarrow> nat \<Rightarrow> bool" where
  "candidate_ok x s p = (round_double (of_int s * 10 ^ p) = Fin x)"

function shortest :: "rat \<Rightarrow> nat \<Rightarrow> nat \<Rightarrow> int \<times> nat" where
  "shortest x N k =
     (let p = N - k;
          lo = \<lfloor>x / 10 ^ p\<rfloor>;
          hi = lo + 1;
          dlo = x - of_int lo * 10 ^ p;
          dhi = of_int hi * 10 ^ p - x
      in if 17 < k \<or> N < k then (lo, p)
         else if candidate_ok x lo p \<and> candidate_ok x hi p then
           (if dhi < dlo \<or> (dhi = dlo \<and> even hi) then (hi, p) else (lo, p))
         else if candidate_ok x lo p then (lo, p)
         else if candidate_ok x hi p then (hi, p)
         else shortest x N (k + 1))"
  by pat_completeness auto
termination
  by (relation "measure (\<lambda>(x, N, k). 18 - k)") auto

declare shortest.simps [simp del]

text \<open>Trailing zeros of the digit string go into the exponent.\<close>

fun strip_zeros :: "string \<Rightarrow> string" where
  "strip_zeros s = rev (dropWhile (\<lambda>c. c = CHR ''0'') (rev s))"

text \<open>\<open>String(x)\<close> for a finite \<open>x \<ge> 10^21\<close>: exponential notation.\<close>

definition to_string_large :: "rat \<Rightarrow> string" where
  "to_string_large x =
     (let N = ndigits \<lfloor>x\<rfloor>;
          (s, p) = shortest x N 1;
          ds = digits s;
          n = length ds + p;
          sig = strip_zeros ds
      in (if length sig \<le> 1 then take 1 ds else take 1 sig @ ''.'' @ drop 1 sig)
         @ ''e+'' @ digits (int n - 1))"

text \<open>\<open>x.toFixed(2)\<close>\<close>

definition fixed2 :: "rat \<Rightarrow> string" where
  "fixed2 x =
     (if 10 ^ 21 \<le> x then to_string_large x
      else
        let n = \<lfloor>x * 100 + 1 / 2\<rfloor>;
            m = digits n;
            m' = (if length m \<le> 2 then replicate (3 - length m) CHR ''0'' @ m else m)
        in take (length m' - 2) m' @ ''.'' @ drop (length m' - 2) m')"

fun toFixed2 :: "jsnum \<Rightarrow> string" where
  "toFixed2 NaN = ''NaN''"
| "toFixed2 PosInf = ''Infinity''"
| "toFixed2 NegInf = ''-Infinity''"
| "toFixed2 NegZero = fixed2 0"
| "toFixed2 (Fin r) = (if r < 0 then CHR ''-'' # fixed2 (- r) else fixed2 r)"


section \<open>Dates and axis labels\<close>

definition int_to_string :: "int \<Rightarrow> string" where
  "int_to_string i = (if i < 0 then CHR ''-'' # digits (- i) else digits i)"

text \<open>String conversion of a number that is an integer or NaN (\<open>None\<close>).\<close>

fun number_to_string :: "int option \<Rightarrow> string" where
  "number_to_string None = ''NaN''"
| "number_to_string (Some i) = int_to_string i"

text \<open>\<open>s.padStart(2, '0')\<close>\<close>

definition padStart2 :: "string \<Rightarrow> string" where
  "padStart2 s = replicate (2 - length s) CHR ''0'' @ s"

text \<open>
  \<open>new Date(ms)\<close>: the time value, or \<open>None\<close> for an invalid date (a time value
  beyond 8.64e15 ms from the epoch).
\<close>

definition new_Date :: "int \<Rightarrow> int option" where
  "new_Date ms = (if \<bar>ms\<bar> \<le> 8640000000000000 then Some ms else None)"

text \<open>
  Year, month (1 to 12) and day of the month of a day number counted from 1970-01-01,
  in the proleptic Gregorian calendar.
\<close>

definition civil_from_days :: "int \<Rightarrow> int \<times> int \<times> int" where
  "civil_from_days days =
     (let z = days + 719468;
          era = z div 146097;
          doe = z - era * 146097;
          yoe = (doe - doe div 1460 + doe div 36524 - doe div 146096) div 365;
          doy = doe - (365 * yoe + yoe div 4 - yoe div 100);
          mp = (5 * doy + 2) div 153;
          d = doy - (153 * mp + 2) div 5 + 1;
          m = (if mp < 10 then mp + 3 else mp - 9);
          y = yoe + era * 400 + (if m \<le> 2 then 1 else 0)
      in (y, m, d))"

text \<open>
  The getters read the local time: \<open>tz t\<close> is the offset of the host's time zone, in
  ms, at the instant \<open>t\<close>.
\<close>

definition local_time :: "(int \<Rightarrow> int) \<Rightarrow> int \<Rightarrow> int" where
  "local_time tz t = t + tz t"

definition getFullYear :: "(int \<Rightarrow> int) \<Rightarrow> int option \<Rightarrow> int option" where
  "getFullYear tz d = map_option (\<lambda>t. fst (civil_from_days (local_time tz t div 86400000))) d"

definition getMonth :: "(int \<Rightarrow> int) \<Rightarrow> int option \<Rightarrow> int option" where
  "getMonth tz d =
     map_option (\<lambda>t. fst (snd (civil_from_days (local_time tz t div 86400000))) - 1) d"

definition getDate :: "(int \<Rightarrow> int) \<Rightarrow> int option \<Rightarrow> int option" where
  "getDate tz d = map_option (\<lambda>t. snd (snd (civil_from_days (local_time tz t div 86400000)))) d"

definition getHours :: "(int \<Rightarrow> int) \<Rightarrow> int option \<Rightarrow> int option" where
  "getHours tz d = map_option (\<lambda>t. (local_time tz t div 3600000) mod 24) d"

definition getMinutes :: "(int \<Rightarrow> int) \<Rightarrow> int option \<Rightarrow> int option" where
  "getMinutes tz d = map_option (\<lambda>t. (local_time tz t div 60000) mod 60) d"

text \<open>The three template strings of the label callback.\<close>

definition year_month :: "(int \<Rightarrow> int) \<Rightarrow> int option \<Rightarrow> string" where
  "year_month tz d =
     number_to_string (getFullYear tz d) @ ''/'' @
     padStart2 (number_to_string (map_option (\<lambda>m. m + 1) (getMonth tz d)))"

definition month_day :: "(int \<Rightarrow> int) \<Rightarrow> int option \<Rightarrow> string" where
  "month_day tz d =
     padStart2 (number_to_string (map_option (\<lambda>m. m + 1) (getMonth tz d))) @ ''/'' @
     padStart2 (number_to_string (getDate tz d))"

definition hour_minute :: "(int \<Rightarrow> int) \<Rightarrow> int option \<Rightarrow> string" where
  "hour_minute tz d =
     padStart2 (number_to_string (getHours tz d)) @ '':'' @
     padStart2 (number_to_string (getMinutes tz d))"

text \<open>\<open>const labels = timestamps.map(t => ...)\<close> of \<open>updateChartUI\<close>.\<close>

definition format_labels :: "(int \<Rightarrow> int) \<Rightarrow> int list \<Rightarrow> string list" where
  "format_labels tz ts =
     map (\<lambda>t.
        let d = new_Date (t * 1000) in
        if length ts > 1 then
          (let timeSpan = ts ! (length ts - 1) - ts ! 0 in
           if timeSpan > 31536000 then year_month tz d
           else if timeSpan > 86400 * 2 then month_day tz d
           else hour_minute tz d)
        else hour_minute tz d) ts"

section \<open>The chart and the price display\<close>

text \<open>One element of the candlestick dataset: \<open>{ x: item.time * 1000, o, h, l, c }\<close>.\<close>

record candle =
  candle_x :: int
  candle_o :: cell
  candle_h :: cell
  candle_l :: cell
  candle_c :: cell

text \<open>
  The single dataset \<open>updateChartUI\<close> installs: the line dataset (label, prices, border
  colour, and the direction its gradient callback closes over) or the candlestick
  dataset (label, items).
\<close>

datatype dataset =
    LineDataset string "cell list" string bool
  | CandleDataset string "candle list"

text \<open>
  The parts of a Chart.js instance the code writes: \<open>config.type\<close>,
  \<open>config.options.scales.x.type\<close> (absent, or \<open>'time'\<close> together with the \<open>time\<close> and
  \<open>ticks\<close> objects of the candlestick branch), \<open>data.labels\<close>, \<open>data.datasets\<close>, and how
  often \<open>update('none')\<close> was called.
\<close>

record chart =
  config_type :: strval
  x_scale_type :: "string option"
  chart_labels :: "string list"
  chart_datasets :: "dataset list"
  update_calls :: nat

text \<open>A chart as the handlers create it: a copy of \<open>chartConfig\<close> with empty data.\<close>

definition new_chart :: chart where
  "new_chart = \<lparr> config_type = SStr ''line'', x_scale_type = None, chart_labels = [],
                  chart_datasets = [], update_calls = 0 \<rparr>"

text \<open>\<open>data.ohlc.map(item => ({ x: item.time * 1000, o: item.o, ... }))\<close>\<close>

definition ohlcData :: "item list \<Rightarrow> candle list" where
  "ohlcData items =
     map (\<lambda>it. \<lparr> candle_x = item_time it * 1000, candle_o = item_o it, candle_h = item_h it,
                  candle_l = item_l it, candle_c = item_c it \<rparr>) items"

text \<open>
  Lines 178 to 291 of \<open>updateChartUI\<close>: what becomes of the chart object. \<open>tz\<close> is the
  host's time zone.
\<close>

definition render_chart ::
  "(int \<Rightarrow> int) \<Rightarrow> chart \<Rightarrow> series \<Rightarrow> string \<Rightarrow> strval \<Rightarrow> chart" where
  "render_chart tz ch data elementIdPrefix currentType =
     (let isPositive = js_ge (to_number (currentPrice data)) (to_number (prevClose data));
          color = (if isPositive then ''#2ebd85'' else ''#f6465d'');
          labels = format_labels tz (timestamps data);
          isCandle = (currentType = SStr ''candlestick'');
          label = (if elementIdPrefix = ''search'' then name data else [])
      in if isCandle then
           ch\<lparr> config_type := currentType,
               x_scale_type := Some ''time'',
               chart_labels := [],
               chart_datasets := [CandleDataset label (ohlcData (ohlc data))],
               update_calls := update_calls ch + 1 \<rparr>
         else
           ch\<lparr> config_type := currentType,
               x_scale_type := None,
               chart_labels := labels,
               chart_datasets := [LineDataset label (prices data) color isPositive],
               update_calls := update_calls ch + 1 \<rparr>)"

text \<open>
  What \<open>updatePriceDisplay\<close> and \<open>updateSearchPriceDisplay\<close> write: the number handed to
  \<open>toLocaleString\<close> (with two fraction digits, in the host's locale) for the price
  element, the text of the change element, and the two class names.
\<close>

record price_display =
  price_number :: jsnum
  price_class :: string
  change_text :: string
  change_class :: string

text \<open>
  The body shared by both functions, after the two elements were found:
  \<open>diff = current - prevClose\<close>, \<open>percent = (diff / prevClose) * 100\<close>. \<open>current\<close> and
  \<open>prevClose\<close> are converted to numbers by \<open>-\<close> and \<open>/\<close>;
  \<open>current.toLocaleString\<close> throws a TypeError when \<open>current\<close> is \<open>undefined\<close> or
  \<open>null\<close>.
\<close>

definition price_diff :: "cell \<Rightarrow> cell \<Rightarrow> jsnum" where
  "price_diff current prev = js_sub (to_number current) (to_number prev)"

definition price_percent :: "cell \<Rightarrow> cell \<Rightarrow> jsnum" where
  "price_percent current prev =
     js_mul (js_div (price_diff current prev) (to_number prev)) (Fin 100)"

definition price_display_of :: "cell \<Rightarrow> cell \<Rightarrow> js_error + price_display" where
  "price_display_of current prev =
     (let diff = price_diff current prev;
          percent = price_percent current prev;
          isPositive = js_ge diff (Fin 0);
          sign = (if isPositive then ''+'' else [])
      in case current of
           Num x \<Rightarrow>
             Inr \<lparr> price_number = x,
                   price_class = ''current-price '' @ (if isPositive then ''text-up'' else ''text-down''),
                   change_text = sign @ toFixed2 percent @ ''%'',
                   change_class = ''change-percent '' @ (if isPositive then ''text-up'' else ''text-down'') \<rparr>
         | _ \<Rightarrow> Inl TypeError)"

section \<open>The page: slots, cache and handlers\<close>

text \<open>An element of \<open>indices\<close>; \<open>lastData\<close> is absent until a fetch succeeded.\<close>

record index =
  idx_id :: string
  idx_symbol :: string
  idx_name :: string
  idx_range :: strval
  idx_interval :: strval
  idx_type :: strval
  lastData :: "series option"

text \<open>\<open>lastFetchedData = { ...data, symbol, range, interval }\<close>\<close>

record cached =
  c_series :: series
  c_symbol :: string
  c_range :: strval
  c_interval :: strval

datatype button_text = Searching | Search

text \<open>
  The state the script works on: its globals (\<open>indices\<close>, \<open>charts\<close>,
  \<open>currentSearchSymbol\<close>, \<open>currentChartType\<close>, \<open>lastFetchedData\<close>), the parts of the
  document it reads and writes, the host's time zone, and the world behind \<open>fetch\<close>.
  Of the document: the value of the input \<open>stock-code\<close> and of the select
  \<open>exchange-select\<close>; whether the controls wrapper of an index id exists; whether the
  two price elements of an id (of the search section) exist, and what was last written
  to them; the \<open>display\<close> style of the error element and of the result section, and
  whether the error message was written; the texts of \<open>search-name\<close> and
  \<open>search-symbol\<close>; text and \<open>disabled\<close> of the search button. The elements the script
  fetches with \<open>getElementById\<close> are taken to exist.
\<close>

record state =
  indices :: "index list"
  charts :: "string \<rightharpoonup> chart"
  currentSearchSymbol :: string
  currentChartType :: strval
  lastFetchedData :: "cached option"
  stock_code :: string
  exchange_select :: string
  controls_wrapper :: "string \<Rightarrow> bool"
  price_elements :: "string \<Rightarrow> bool"
  search_price_elements :: bool
  price_shown :: "string \<Rightarrow> price_display option"
  search_price_shown :: "price_display option"
  error_display :: string
  error_written :: bool
  result_display :: string
  search_name :: string
  search_symbol_text :: string
  search_btn :: button_text
  search_btn_disabled :: bool
  time_zone :: "int \<Rightarrow> int"
  outside :: world

text \<open>\<open>updatePriceDisplay(id, current, prevClose)\<close>\<close>

definition updatePriceDisplay ::
  "string \<Rightarrow> cell \<Rightarrow> cell \<Rightarrow> state \<Rightarrow> js_error option \<times> state" where
  "updatePriceDisplay ident current prev st =
     (if \<not> price_elements st ident then (None, st)
      else case price_display_of current prev of
             Inl e \<Rightarrow> (Some e, st)
           | Inr pd \<Rightarrow> (None, st\<lparr> price_shown := (price_shown st)(ident := Some pd) \<rparr>))"

text \<open>\<open>updateSearchPriceDisplay(current, prevClose)\<close>\<close>

definition updateSearchPriceDisplay ::
  "cell \<Rightarrow> cell \<Rightarrow> state \<Rightarrow> js_error option \<times> state" where
  "updateSearchPriceDisplay current prev st =
     (if \<not> search_price_elements st then (None, st)
      else case price_display_of current prev of
             Inl e \<Rightarrow> (Some e, st)
           | Inr pd \<Rightarrow> (None, st\<lparr> search_price_shown := Some pd \<rparr>))"

text \<open>
  \<open>updateChartUI(chart, data, elementIdPrefix, true, currentType)\<close>, the chart being
  \<open>charts[key]\<close>: reading \<open>chart.config\<close> of a chart that is not there throws. The
  result is the exception thrown, if any, and the state reached.
\<close>

definition updateChartUI ::
  "string \<Rightarrow> series \<Rightarrow> string \<Rightarrow> strval \<Rightarrow> state \<Rightarrow> js_error option \<times> state" where
  "updateChartUI key data elementIdPrefix currentType st =
     (case charts st key of
        None \<Rightarrow> (Some TypeError, st)
      | Some ch \<Rightarrow>
          (let st1 = st\<lparr> charts := (charts st)(key \<mapsto>
                           render_chart (time_zone st) ch data elementIdPrefix currentType) \<rparr>
           in if elementIdPrefix = ''search''
              then updateSearchPriceDisplay (currentPrice data) (prevClose data) st1
              else updatePriceDisplay elementIdPrefix (currentPrice data) (prevClose data) st1))"

text \<open>\<open>await fetchStockData(symbol, range, interval)\<close> from a handler: one retry.\<close>

definition fetch_in :: "string \<Rightarrow> strval \<Rightarrow> strval \<Rightarrow> state \<Rightarrow> outcome \<times> state" where
  "fetch_in symbol rng ivl st =
     (case fetchStockData symbol rng ivl 1 (outside st) of
        (out, w) \<Rightarrow> (out, st\<lparr> outside := w \<rparr>))"

text \<open>
  \<open>updateIndexData(index)\<close>, the index being \<open>indices[k]\<close> (the callers pass elements
  of \<open>indices\<close>).
\<close>

definition updateIndexData :: "nat \<Rightarrow> state \<Rightarrow> js_error option \<times> state" where
  "updateIndexData k st =
     (if length (indices st) \<le> k then (None, st)
      else
        let index = indices st ! k in
        case fetch_in (idx_symbol index) (idx_range index) (idx_interval index) st of
          (Data d, st1) \<Rightarrow>
            updateChartUI (idx_id index) d (idx_id index) (idx_type index)
              (st1\<lparr> indices := (indices st1)[k := index\<lparr> lastData := Some d \<rparr>] \<rparr>)
        | (out, st1) \<Rightarrow> (None, st1))"

subsection \<open>Search\<close>

definition is_space :: "char \<Rightarrow> bool" where
  "is_space ch = (ch \<in> set [CHR 0x20, CHR 0x09, CHR 0x0A, CHR 0x0B, CHR 0x0C, CHR 0x0D])"

text \<open>\<open>s.trim()\<close> and \<open>s.toUpperCase()\<close>, on ASCII text.\<close>

definition trim :: "string \<Rightarrow> string" where
  "trim s = rev (dropWhile is_space (rev (dropWhile is_space s)))"

definition toUpperCase :: "string \<Rightarrow> string" where
  "toUpperCase s =
     map (\<lambda>ch. if 97 \<le> (of_char ch :: nat) \<and> (of_char ch :: nat) \<le> 122
                then char_of ((of_char ch :: nat) - 32) else ch) s"

text \<open>
  The symbol \<open>handleSearch\<close> works with (lines 360 to 388): the trimmed, upper-cased
  input, or the symbol searched last when the input is empty, with the exchange suffix
  appended when one is selected and the symbol has no dot.
\<close>

definition search_symbol :: "state \<Rightarrow> string" where
  "search_symbol st =
     (let typed = toUpperCase (trim (stock_code st));
          symbol = (if typed = [] \<and> currentSearchSymbol st \<noteq> []
                    then currentSearchSymbol st else typed)
      in if exchange_select st \<noteq> [] \<and> CHR ''.'' \<notin> set symbol
         then symbol @ exchange_select st else symbol)"

text \<open>The test of line 405, on the cache and the parameters of this call.\<close>

definition shouldFetchNewData :: "cached option \<Rightarrow> string \<Rightarrow> strval \<Rightarrow> strval \<Rightarrow> bool" where
  "shouldFetchNewData last_fetched symbol rng ivl =
     (\<not> (case last_fetched of
            None \<Rightarrow> False
          | Some c \<Rightarrow> c_symbol c = symbol \<and> c_range c = rng \<and> c_interval c = ivl))"

text \<open>Lines 439 to 456: show the result section and draw the chart.\<close>

definition show_search_result :: "series \<Rightarrow> string \<Rightarrow> state \<Rightarrow> js_error option \<times> state" where
  "show_search_result data symbol st =
     (let st1 = st\<lparr> result_display := ''block'', search_name := name data,
                     search_symbol_text := symbol \<rparr>;
          st2 = (case charts st1 ''searchResult'' of
                   None \<Rightarrow> st1\<lparr> charts := (charts st1)(''searchResult'' \<mapsto> new_chart) \<rparr>
                 | Some ch \<Rightarrow> st1)
      in updateChartUI ''searchResult'' data ''search'' (currentChartType st2) st2)"

text \<open>\<open>handleSearch(range = '5y', interval = '1mo', chartType = null)\<close>\<close>

definition handleSearch :: "strval \<Rightarrow> strval \<Rightarrow> strval \<Rightarrow> state \<Rightarrow> js_error option \<times> state" where
  "handleSearch rng0 ivl0 chartType0 st =
     (let rng = default_param ''5y'' rng0;
          ivl = default_param ''1mo'' ivl0;
          chartType = (if chartType0 = SUndefined then SNull else chartType0);
          symbol = search_symbol st;
          st1 = (if truthy chartType then st\<lparr> currentChartType := chartType \<rparr> else st)
      in if symbol = [] then (None, st1)
         else
           let st2 = st1\<lparr> currentSearchSymbol := symbol, error_display := ''none'' \<rparr> in
           if shouldFetchNewData (lastFetchedData st2) symbol rng ivl then
             (case fetch_in symbol rng ivl
                     (st2\<lparr> search_btn := Searching, search_btn_disabled := True \<rparr>) of
                (out, st3) \<Rightarrow>
                  (case (case out of Data d \<Rightarrow> if length (prices d) = 0 then None else Some d
                                   | _ \<Rightarrow> None) of
                     None \<Rightarrow>
                       (None, st3\<lparr> error_written := True, error_display := ''block'',
                                    result_display := ''none'',
                                    search_btn := Search, search_btn_disabled := False \<rparr>)
                   | Some d \<Rightarrow>
                       show_search_result d symbol
                         (st3\<lparr> lastFetchedData :=
                                  Some \<lparr> c_series = d, c_symbol = symbol,
                                         c_range = rng, c_interval = ivl \<rparr>,
                               search_btn := Search, search_btn_disabled := False \<rparr>)))
           else
             (case lastFetchedData st2 of
                Some c \<Rightarrow> show_search_result (c_series c) symbol st2
              | None \<Rightarrow> (None, st2)))"

subsection \<open>The chart controls\<close>

text \<open>\<open>a || b\<close>\<close>

definition or_else :: "strval \<Rightarrow> strval \<Rightarrow> strval" where
  "or_else a b = (if truthy a then a else b)"

text \<open>\<open>indices.find(i => i.id === chartId)\<close>, as a position.\<close>

fun find_index :: "string \<Rightarrow> index list \<Rightarrow> nat option" where
  "find_index chartId [] = None"
| "find_index chartId (i # rest) =
     (if idx_id i = chartId then Some 0 else map_option Suc (find_index chartId rest))"

text \<open>Lines 475 to 481: the new range, interval and type go into the slot.\<close>

definition update_slot :: "strval \<Rightarrow> strval \<Rightarrow> strval \<Rightarrow> index \<Rightarrow> index" where
  "update_slot rng ivl type ix =
     (let ix1 = (if truthy rng then ix\<lparr> idx_range := rng, idx_interval := ivl \<rparr> else ix)
      in if truthy type then ix1\<lparr> idx_type := type \<rparr> else ix1)"

text \<open>Lines 497 to 509 fetch and cache: the \<open>if (data) targetState.lastData = data\<close>.\<close>

definition fetch_slot :: "nat \<Rightarrow> state \<Rightarrow> series option \<times> state" where
  "fetch_slot k st =
     (let ix = indices st ! k in
      case fetch_in (idx_symbol ix) (idx_range ix) (idx_interval ix) st of
        (Data d, st1) \<Rightarrow>
          (Some d, st1\<lparr> indices := (indices st1)[k := (indices st1 ! k)\<lparr> lastData := Some d \<rparr>] \<rparr>)
      | (out, st1) \<Rightarrow> (None, st1))"

text \<open>
  \<open>handleChartUpdate(chartId, range, interval, type)\<close>. For the search slot it
  calls \<open>handleSearch\<close> without awaiting it: what \<open>handleSearch\<close> throws is not thrown
  by \<open>handleChartUpdate\<close>.
\<close>

definition handleChartUpdate ::
  "string \<Rightarrow> strval \<Rightarrow> strval \<Rightarrow> strval \<Rightarrow> state \<Rightarrow> js_error option \<times> state" where
  "handleChartUpdate chartId rng ivl type st =
     (if chartId = ''search'' then
        (let nextRange = or_else rng (case lastFetchedData st of
                                        Some c \<Rightarrow> c_range c | None \<Rightarrow> SUndefined);
             nextInterval = or_else ivl (case lastFetchedData st of
                                           Some c \<Rightarrow> c_interval c | None \<Rightarrow> SUndefined)
         in (None, snd (handleSearch nextRange nextInterval type st)))
      else
        case find_index chartId (indices st) of
          None \<Rightarrow> (None, st)
        | Some k \<Rightarrow>
            (let st1 = st\<lparr> indices := (indices st)[k := update_slot rng ivl type (indices st ! k)] \<rparr>
             in if \<not> controls_wrapper st1 chartId then (None, st1)
                else
                  case (if truthy rng then fetch_slot k st1
                        else case lastData (indices st1 ! k) of
                               Some d \<Rightarrow> (Some d, st1)
                             | None \<Rightarrow> fetch_slot k st1) of
                    (Some d, st2) \<Rightarrow>
                      (case charts st2 chartId of
                         Some ch \<Rightarrow> updateChartUI chartId d chartId (idx_type (indices st2 ! k)) st2
                       | None \<Rightarrow> (None, st2))
                  | (None, st2) \<Rightarrow> (None, st2)))"

section \<open>Vocabulary of the properties\<close>

text \<open>An answer of the relay on which the body of the \<open>try\<close> block throws.\<close>

definition failing :: "string \<Rightarrow> response \<Rightarrow> bool" where
  "failing symbol resp = isl (attempt symbol resp)"

text \<open>
  An answer that carries \<open>chart.result[0]\<close>, \<open>indicators.quote[0]\<close> and \<open>meta\<close>, whatever
  its arrays hold.
\<close>

fun well_shaped :: "response \<Rightarrow> bool" where
  "well_shaped (Json (Some r)) = (indicators_quote0 r \<noteq> None \<and> result_meta r \<noteq> None)"
| "well_shaped _ = False"

text \<open>\<open>m\<close> requests of \<open>req\<close> with a pause of 500 ms between any two in a row.\<close>

fun spaced :: "request \<Rightarrow> nat \<Rightarrow> event list" where
  "spaced req 0 = []"
| "spaced req (Suc 0) = [Request req]"
| "spaced req (Suc (Suc m)) = Request req # Wait 500 # spaced req (Suc m)"

text \<open>The relay's answer to the \<open>k\<close>-th request made from the world \<open>w\<close> on.\<close>

definition answer :: "world \<Rightarrow> request \<Rightarrow> nat \<Rightarrow> response" where
  "answer w req k = net w (attempts_made (trace w) + k) req"

subsection \<open>Sample inputs\<close>

definition good_quote :: quote where
  "good_quote = \<lparr> q_open = Some [Num (Fin 10), Null, Num (Fin 12)],
                   q_high = Some [Num (Fin 11), Num (Fin 13), Null],
                   q_low = Some [Num (Fin 9), Num (Fin 9), Num (Fin 11)],
                   q_close = Some [Num (Fin 10), Num (Fin 11), Num (Fin 12)] \<rparr>"

definition good_meta :: meta where
  "good_meta = \<lparr> regularMarketPrice = Num (Fin 12), chartPreviousClose = Num (Fin 10),
                  shortName = Some ''KOSPI'', longName = None \<rparr>"

definition good_result :: chart_result where
  "good_result = \<lparr> timestamp = Some [100, 200, 300],
                    indicators_quote0 = Some good_quote,
                    result_meta = Some good_meta \<rparr>"

text \<open>A relay that rejects every request.\<close>

definition down_world :: world where
  "down_world = \<lparr> net = (\<lambda>k req. FetchRejected), trace = [], console = [] \<rparr>"

text \<open>A relay whose first answer has no \<open>chart.result[0]\<close> and whose later answers are fine.\<close>

definition shape_then_good_world :: world where
  "shape_then_good_world =
     \<lparr> net = (\<lambda>k req. if k = 0 then Json None else Json (Some good_result)),
       trace = [], console = [] \<rparr>"

text \<open>A relay that answers every request with the sample document.\<close>

definition good_world :: world where
  "good_world = \<lparr> net = (\<lambda>k req. Json (Some good_result)), trace = [], console = [] \<rparr>"

text \<open>A document whose timestamps descend.\<close>

definition unsorted_result :: chart_result where
  "unsorted_result = \<lparr> timestamp = Some [200, 100],
                    indicators_quote0 = Some \<lparr> q_open = Some [Num (Fin 10), Num (Fin 11)],
                      q_high = Some [Num (Fin 12), Num (Fin 12)],
                      q_low = Some [Num (Fin 9), Num (Fin 9)],
                      q_close = Some [Num (Fin 11), Num (Fin 10)] \<rparr>,
                    result_meta = Some good_meta \<rparr>"

definition unsorted_world :: world where
  "unsorted_world = \<lparr> net = (\<lambda>k req. Json (Some unsorted_result)), trace = [], console = [] \<rparr>"

text \<open>A document of the expected shape none of whose points passes the validation.\<close>

definition empty_result :: chart_result where
  "empty_result = \<lparr> timestamp = Some [100, 200],
                    indicators_quote0 = Some \<lparr> q_open = Some [Null, Null],
                      q_high = Some [Num (Fin 12), Num (Fin 12)],
                      q_low = Some [Num (Fin 9), Num (Fin 9)],
                      q_close = Some [Num (Fin 11), Null] \<rparr>,
                    result_meta = Some good_meta \<rparr>"

definition empty_world :: world where
  "empty_world = \<lparr> net = (\<lambda>k req. Json (Some empty_result)), trace = [], console = [] \<rparr>"

subsection \<open>Label granularity, in the words of the specification\<close>

datatype granularity = YearMonth | MonthDay | HourMinute

text \<open>
  The policy of the specification: a span above 31,536,000 s gives \<open>YYYY/MM\<close>, else a
  span above 172,800 s gives \<open>MM/DD\<close>, else \<open>HH:mm\<close>; the span is the time of the last
  point minus the time of the first, and an empty sequence has the finest granularity.
\<close>

definition spec_span_granularity :: "int \<Rightarrow> granularity" where
  "spec_span_granularity sp =
     (if sp > 31536000 then YearMonth
      else if sp > 172800 then MonthDay
      else HourMinute)"

definition spec_granularity :: "int list \<Rightarrow> granularity" where
  "spec_granularity ts =
     (if ts = [] then HourMinute else spec_span_granularity (last ts - hd ts))"

text \<open>
  The formats of the specification, written without the script's string functions. A year
  is written as its decimal numeral; a month, a day, an hour or a minute in two digits,
  with a leading zero below ten.
\<close>

definition decimal_digit :: "int \<Rightarrow> char" where
  "decimal_digit d =
     (if d = 0 then CHR ''0'' else if d = 1 then CHR ''1'' else if d = 2 then CHR ''2''
      else if d = 3 then CHR ''3'' else if d = 4 then CHR ''4'' else if d = 5 then CHR ''5''
      else if d = 6 then CHR ''6'' else if d = 7 then CHR ''7'' else if d = 8 then CHR ''8''
      else CHR ''9'')"

function decimal :: "int \<Rightarrow> string" where
  "decimal n =
     (if n \<le> 9 then [decimal_digit n] else decimal (n div 10) @ [decimal_digit (n mod 10)])"
  by pat_completeness auto
termination
  by (relation "measure nat") auto

declare decimal.simps [simp del]

definition signed_decimal :: "int \<Rightarrow> string" where
  "signed_decimal i = (if 0 \<le> i then decimal i else CHR ''-'' # decimal (- i))"

definition two_digits :: "int \<Rightarrow> string" where
  "two_digits n = [decimal_digit (n div 10), decimal_digit (n mod 10)]"

text \<open>
  The local wall clock at an instant (in ms since the epoch) in the host's time zone:
  year, month (1 to 12), day of the month, hour and minute.
\<close>

record wall_clock =
  wc_year :: int
  wc_month :: int
  wc_day :: int
  wc_hour :: int
  wc_minute :: int

definition wall_clock_of :: "(int \<Rightarrow> int) \<Rightarrow> int \<Rightarrow> wall_clock" where
  "wall_clock_of tz ms =
     (let loc = ms + tz ms;
          (y, m, d) = civil_from_days (loc div 86400000)
      in \<lparr> wc_year = y, wc_month = m, wc_day = d,
           wc_hour = loc div 3600000 mod 24, wc_minute = loc div 60000 mod 60 \<rparr>)"

text \<open>\<open>YYYY/MM\<close>, \<open>MM/DD\<close> and \<open>HH:mm\<close>.\<close>

fun spec_label :: "granularity \<Rightarrow> wall_clock \<Rightarrow> string" where
  "spec_label YearMonth w = signed_decimal (wc_year w) @ ''/'' @ two_digits (wc_month w)"
| "spec_label MonthDay w = two_digits (wc_month w) @ ''/'' @ two_digits (wc_day w)"
| "spec_label HourMinute w = two_digits (wc_hour w) @ '':'' @ two_digits (wc_minute w)"

text \<open>
  A time of a point (in seconds) that \<open>Date\<close> can represent: at most 8.64e12 s from the
  epoch. What a label reads beyond that range: \<open>NaN\<close> for every field.
\<close>

definition in_date_range :: "int \<Rightarrow> bool" where
  "in_date_range t = (\<bar>t\<bar> \<le> 8640000000000)"

fun nan_label :: "granularity \<Rightarrow> string" where
  "nan_label YearMonth = ''NaN/NaN''"
| "nan_label MonthDay = ''NaN/NaN''"
| "nan_label HourMinute = ''NaN:NaN''"

subsection \<open>Sample pages\<close>

text \<open>The series \<open>fetchStockData\<close> makes of the sample document.\<close>

definition sample_series :: series where
  "sample_series =
     \<lparr> ohlc =
        [\<lparr>item_time = 100, item_o = Num (Fin 10), item_h = Num (Fin 11),
            item_l = Num (Fin 9), item_c = Num (Fin 10)\<rparr>,
         \<lparr>item_time = 300, item_o = Num (Fin 12), item_h = Null,
            item_l = Num (Fin 11), item_c = Num (Fin 12)\<rparr>],
        prices = [Num (Fin 10), Num (Fin 12)], timestamps = [100, 300],
        currentPrice = Num (Fin 12), prevClose = Num (Fin 10),
        lastUpdated = Some 300, name = ''KOSPI'' \<rparr>"

text \<open>The \<open>indices\<close> of the script (lines 74 to 79).\<close>

definition initial_indices :: "index list" where
  "initial_indices =
     [\<lparr> idx_id = ''kospi'', idx_symbol = ''^KS11'', idx_name = ''KOSPI'',
         idx_range = SStr ''5y'', idx_interval = SStr ''1mo'', idx_type = SStr ''candlestick'',
         lastData = None \<rparr>,
      \<lparr> idx_id = ''kosdaq'', idx_symbol = ''^KQ11'', idx_name = ''KOSDAQ'',
         idx_range = SStr ''5y'', idx_interval = SStr ''1mo'', idx_type = SStr ''candlestick'',
         lastData = None \<rparr>,
      \<lparr> idx_id = ''nasdaq'', idx_symbol = ''^IXIC'', idx_name = ''NASDAQ'',
         idx_range = SStr ''5y'', idx_interval = SStr ''1mo'', idx_type = SStr ''candlestick'',
         lastData = None \<rparr>,
      \<lparr> idx_id = ''sp500'', idx_symbol = ''^GSPC'', idx_name = ''S&P 500'',
         idx_range = SStr ''5y'', idx_interval = SStr ''1mo'', idx_type = SStr ''candlestick'',
         lastData = None \<rparr>]"

text \<open>
  The page once the charts of the four indices exist and before any data arrived, in
  the time zone UTC, with every element the handlers look for in place.
\<close>

definition fresh_page :: "world \<Rightarrow> state" where
  "fresh_page w =
     \<lparr> indices = initial_indices,
       charts = [''kospi'' \<mapsto> new_chart, ''kosdaq'' \<mapsto> new_chart,
                 ''nasdaq'' \<mapsto> new_chart, ''sp500'' \<mapsto> new_chart],
       currentSearchSymbol = [],
       currentChartType = SStr ''candlestick'',
       lastFetchedData = None,
       stock_code = [],
       exchange_select = [],
       controls_wrapper = (\<lambda>i. True),
       price_elements = (\<lambda>i. True),
       search_price_elements = True,
       price_shown = (\<lambda>i. None),
       search_price_shown = None,
       error_display = ''none'',
       error_written = False,
       result_display = ''none'',
       search_name = [],
       search_symbol_text = [],
       search_btn = Search,
       search_btn_disabled = False,
       time_zone = (\<lambda>t. 0),
       outside = w \<rparr>"

text \<open>
  The page after the first index was loaded and \<open>AAPL\<close> was searched, both from the
  sample document, with the input then holding \<open>typed\<close>.
\<close>

definition loaded_page :: "string \<Rightarrow> world \<Rightarrow> state" where
  "loaded_page typed w =
     (fresh_page w)
       \<lparr> indices := initial_indices[0 := (initial_indices ! 0)\<lparr> lastData := Some sample_series \<rparr>],
         currentSearchSymbol := ''AAPL'',
         lastFetchedData := Some \<lparr> c_series = sample_series, c_symbol = ''AAPL'',
                                   c_range = SStr ''5y'', c_interval = SStr ''1mo'' \<rparr>,
         stock_code := typed \<rparr>"

subsection \<open>Texts with two decimal places\<close>

definition is_digit :: "char \<Rightarrow> bool" where
  "is_digit ch = (ch \<in> set ''0123456789'')"

text \<open>One or more digits, a point, two digits.\<close>

definition two_decimals :: "string \<Rightarrow> bool" where
  "two_decimals s =
     (4 \<le> length s \<and> s ! (length s - 3) = CHR ''.''
      \<and> list_all is_digit (take (length s - 3) s)
      \<and> list_all is_digit (drop (length s - 2) s))"

text \<open>The same after an optional minus sign.\<close>

fun signed_two_decimals :: "string \<Rightarrow> bool" where
  "signed_two_decimals [] = False"
| "signed_two_decimals (ch # s) = (if ch = CHR ''-'' then two_decimals s else two_decimals (ch # s))"

text \<open>A number that is finite (a negative zero included) and below 1e21 in magnitude.\<close>

fun finite_below_1e21 :: "jsnum \<Rightarrow> bool" where
  "finite_below_1e21 (Fin p) = (\<bar>p\<bar> < 10 ^ 21)"
| "finite_below_1e21 NegZero = True"
| "finite_below_1e21 PosInf = False"
| "finite_below_1e21 NegInf = False"
| "finite_below_1e21 NaN = False"

section \<open>The retry loop\<close>

lemma attempts_made_append [simp]:
  "attempts_made (xs @ ys) = attempts_made xs + attempts_made ys"
  by (simp add: attempts_made_def)

lemma attempts_made_simps [simp]:
  "attempts_made [] = 0"
  "attempts_made (Request r # evs) = Suc (attempts_made evs)"
  "attempts_made (Wait d # evs) = attempts_made evs"
  by (simp_all add: attempts_made_def)

lemma attempts_made_spaced [simp]: "attempts_made (spaced req m) = m"
  by (induction req m rule: spaced.induct) simp_all

lemma spaced_Suc: "0 < m \<Longrightarrow> spaced req (Suc m) = Request req # Wait 500 # spaced req m"
  by (cases m) simp_all

lemma failing_iff: "failing symbol resp = (\<not> well_shaped resp)"
  by (cases resp rule: well_shaped.cases)
     (auto simp: failing_def normalize_result_def Let_def split: option.splits)

lemma fetch_loop_negative:
  "retries < i \<Longrightarrow> fetch_loop symbol req retries i w = (UndefinedResult, w)"
  by (subst fetch_loop.simps) simp

text \<open>
  The loop run from iteration \<open>i\<close>: it makes \<open>m\<close> requests, at most one per remaining
  iteration, 500 ms apart; all but the last met a failing answer; the last one decides
  the result, and when it fails too it was the last iteration.
\<close>

lemma fetch_loop_shape:
  "i \<le> retries \<Longrightarrow> fetch_loop symbol req retries i w = (out, w') \<Longrightarrow>
     \<exists>m. 1 \<le> m \<and> m \<le> nat (retries - i) + 1
       \<and> trace w' = trace w @ spaced req m
       \<and> net w' = net w
       \<and> list_all (failing symbol) (map (answer w req) [0..<m - 1])
       \<and> out = (case attempt symbol (answer w req (m - 1)) of
                  Inr d \<Rightarrow> Data d | Inl e \<Rightarrow> NullResult)
       \<and> (if failing symbol (answer w req (m - 1)) then m = nat (retries - i) + 1 else True)"
proof (induction symbol req retries i w arbitrary: out w' rule: fetch_loop.induct)
  case (1 symbol req retries i w)
  obtain resp w1 where df: "do_fetch req w = (resp, w1)" by (cases "do_fetch req w")
  have resp: "resp = answer w req 0" and w1: "w1 = w\<lparr> trace := trace w @ [Request req] \<rparr>"
    using df by (simp_all add: do_fetch_def answer_def)
  have unf: "fetch_loop symbol req retries i w =
      (case attempt symbol resp of
         Inr d \<Rightarrow> (Data d, w1)
       | Inl e \<Rightarrow>
           if i = retries
           then (NullResult, w1\<lparr> console := console w1 @ [(symbol, e)] \<rparr>)
           else fetch_loop symbol req retries (i + 1) (do_wait 500 w1))"
    using 1(2) df by (subst fetch_loop.simps) simp
  show ?case
  proof (cases "attempt symbol resp")
    case (Inr d)
    then have "out = Data d" "w' = w1" using 1(3) unfolding unf by simp_all
    then show ?thesis using Inr resp w1
      by (intro exI[of _ 1]) (simp add: failing_def)
  next
    case (Inl e)
    show ?thesis
    proof (cases "i = retries")
      case True
      then have "out = NullResult" "w' = w1\<lparr> console := console w1 @ [(symbol, e)] \<rparr>"
        using 1(3) Inl unfolding unf by simp_all
      then show ?thesis using Inl resp w1 True
        by (intro exI[of _ 1]) (simp add: failing_def)
    next
      case False
      then have lt: "i + 1 \<le> retries" using 1(2) by simp
      have rec: "fetch_loop symbol req retries (i + 1) (do_wait 500 w1) = (out, w')"
        using 1(3) Inl False unfolding unf by simp
      from 1(1)[OF 1(2) df[symmetric] Inl False lt rec]
      obtain m where m: "1 \<le> m" "m \<le> nat (retries - (i + 1)) + 1"
        "trace w' = trace (do_wait 500 w1) @ spaced req m"
        "net w' = net (do_wait 500 w1)"
        "list_all (failing symbol) (map (answer (do_wait 500 w1) req) [0..<m - 1])"
        "out = (case attempt symbol (answer (do_wait 500 w1) req (m - 1)) of
                  Inr d \<Rightarrow> Data d | Inl e \<Rightarrow> NullResult)"
        "(if failing symbol (answer (do_wait 500 w1) req (m - 1))
          then m = nat (retries - (i + 1)) + 1 else True)"
        by blast
      have shift: "answer (do_wait 500 w1) req k = answer w req (Suc k)" for k
        by (simp add: answer_def do_wait_def w1)
      have f0: "failing symbol (answer w req 0)" using Inl resp by (simp add: failing_def)
      have all: "list_all (failing symbol) (map (answer w req) [0..<Suc m - 1])"
      proof -
        have "[0..<m] = 0 # map Suc [0..<m - 1]"
          using m(1) by (metis One_nat_def Suc_pred less_eq_Suc_le map_Suc_upt upt_conv_Cons)
        moreover have "answer (do_wait 500 w1) req = (\<lambda>k. answer w req (Suc k))"
          using shift by auto
        ultimately show ?thesis using m(5) f0 by (simp add: comp_def)
      qed
      have tr: "trace w' = trace w @ spaced req (Suc m)"
        using m(1,3) by (simp add: spaced_Suc do_wait_def w1)
      have last_eq: "answer w req (Suc m - 1) = answer (do_wait 500 w1) req (m - 1)"
        using m(1) by (simp add: shift)
      have bound: "Suc m \<le> nat (retries - i) + 1" using m(2) lt by simp
      have nt: "net w' = net w" using m(4) by (simp add: do_wait_def w1)
      have out: "out = (case attempt symbol (answer w req (Suc m - 1)) of
                  Inr d \<Rightarrow> Data d | Inl e \<Rightarrow> NullResult)"
        using m(6) unfolding last_eq .
      have fin: "(if failing symbol (answer w req (Suc m - 1))
                  then Suc m = nat (retries - i) + 1 else True)"
        unfolding last_eq using m(7) lt by (auto split: if_splits)
      have "1 \<le> Suc m" by simp
      then show ?thesis using bound tr nt all out fin by blast
    qed
  qed
qed

lemma fetchStockData_shape:
  assumes "0 \<le> n" and "fetchStockData symbol rng ivl n w = (out, w')"
    and "req = chart_request symbol (default_param ''1d'' rng) (default_param ''5m'' ivl)"
  shows "\<exists>m. 1 \<le> m \<and> m \<le> nat n + 1
       \<and> trace w' = trace w @ spaced req m
       \<and> net w' = net w
       \<and> list_all (failing symbol) (map (answer w req) [0..<m - 1])
       \<and> out = (case attempt symbol (answer w req (m - 1)) of
                  Inr d \<Rightarrow> Data d | Inl e \<Rightarrow> NullResult)
       \<and> (if failing symbol (answer w req (m - 1)) then m = nat n + 1 else True)"
proof -
  have "fetch_loop symbol req n 0 w = (out, w')"
    using assms(2,3) by (simp add: fetchStockData_def)
  from fetch_loop_shape[OF assms(1) this] show ?thesis by (simp only: diff_zero)
qed

lemma down_world_run:
  "fetchStockData ''X'' SUndefined SUndefined 1 down_world =
    (NullResult, \<lparr> net = (\<lambda>k req. FetchRejected),
       trace = [Request \<lparr> req_symbol = ''X'', req_interval = ''5m'', req_range = ''1d'' \<rparr>,
                Wait 500,
                Request \<lparr> req_symbol = ''X'', req_interval = ''5m'', req_range = ''1d'' \<rparr>],
       console = [(''X'', NetworkError)] \<rparr>)"
  by (simp add: fetchStockData_def fetch_loop.simps chart_request_def down_world_def
      do_fetch_def do_wait_def attempts_made_def)

text \<open>
  C2. With \<open>retries = n \<ge> 0\<close> a call of \<open>fetchStockData\<close> adds to the trace \<open>m\<close>
  requests with \<open>1 \<le> m \<le> n + 1\<close>, any two in a row separated by one pause of
  exactly 500 ms, and nothing else. When the last request made meets a failing answer,
  it was request number \<open>n + 1\<close> and the call evaluates to \<open>null\<close>; otherwise the call
  does not evaluate to \<open>null\<close>. So a relay that always fails is asked exactly
  \<open>n + 1\<close> times: twice for \<open>retries = 1\<close>.
\<close>

theorem fetchStockData_attempts:
  assumes "0 \<le> n" and "fetchStockData symbol rng ivl n w = (out, w')"
    and "req = chart_request symbol (default_param ''1d'' rng) (default_param ''5m'' ivl)"
  shows "\<exists>m. 1 \<le> m \<and> m \<le> nat n + 1
       \<and> trace w' = trace w @ spaced req m
       \<and> attempts_made (trace w') = attempts_made (trace w) + m
       \<and> (if failing symbol (answer w req (m - 1))
            then m = nat n + 1 \<and> out = NullResult
            else out \<noteq> NullResult)"
proof -
  from fetchStockData_shape[OF assms]
  obtain m where m: "1 \<le> m" "m \<le> nat n + 1"
      "trace w' = trace w @ spaced req m"
      "out = (case attempt symbol (answer w req (m - 1)) of
                  Inr d \<Rightarrow> Data d | Inl e \<Rightarrow> NullResult)"
      "(if failing symbol (answer w req (m - 1)) then m = nat n + 1 else True)"
    by blast
  have "attempts_made (trace w') = attempts_made (trace w) + m"
    using m(3) by simp
  moreover have "(if failing symbol (answer w req (m - 1))
            then m = nat n + 1 \<and> out = NullResult
            else out \<noteq> NullResult)"
    using m(4,5) by (auto simp: failing_def split: sum.splits if_splits)
  ultimately show ?thesis using m(1,2,3) by blast
qed

theorem fetchStockData_attempts_witness:
  "attempts_made (trace (snd (fetchStockData ''X'' SUndefined SUndefined 1 down_world))) = 2
   \<and> fst (fetchStockData ''X'' SUndefined SUndefined 1 down_world) = NullResult"
proof -
  have f: "failing ''X'' (answer down_world r k)" for r k
    by (simp add: failing_def answer_def down_world_def)
  from fetchStockData_attempts[of 1 "''X''" SUndefined SUndefined down_world, OF _ surjective_pairing refl]
  obtain m where
    "attempts_made (trace (snd (fetchStockData ''X'' SUndefined SUndefined 1 down_world)))
       = attempts_made (trace down_world) + m"
    "(if failing ''X'' (answer down_world
          (chart_request ''X'' (default_param ''1d'' SUndefined) (default_param ''5m'' SUndefined))
          (m - 1))
      then m = nat 1 + 1 \<and> fst (fetchStockData ''X'' SUndefined SUndefined 1 down_world) = NullResult
      else fst (fetchStockData ''X'' SUndefined SUndefined 1 down_world) \<noteq> NullResult)"
    by auto
  then show ?thesis using f by (simp add: down_world_def)
qed

text \<open>
  C9. For every \<open>retries \<ge> 0\<close> and every relay, the call returns (the loop is a total
  function) and what it evaluates to is the data object or \<open>null\<close>: every failure of
  an attempt is a value of the \<open>try\<close> block that the \<open>catch\<close> consumes, and the loop does
  not end without a \<open>return\<close>.
\<close>

theorem fetchStockData_total:
  assumes "0 \<le> n"
  shows "(\<exists>d. fst (fetchStockData symbol rng ivl n w) = Data d)
       \<or> fst (fetchStockData symbol rng ivl n w) = NullResult"
proof -
  from fetchStockData_shape[OF assms surjective_pairing refl]
  obtain m where "fst (fetchStockData symbol rng ivl n w) =
      (case attempt symbol (answer w
          (chart_request symbol (default_param ''1d'' rng) (default_param ''5m'' ivl)) (m - 1)) of
         Inr d \<Rightarrow> Data d | Inl e \<Rightarrow> NullResult)"
    by blast
  then show ?thesis by (auto split: sum.splits)
qed

theorem fetchStockData_total_witness:
  "(0::int) \<le> 1 \<and> fst (fetchStockData ''X'' SUndefined SUndefined 1 down_world) = NullResult"
  using fetchStockData_total[of 1 "''X''" SUndefined SUndefined down_world]
  by (simp add: down_world_run)

section \<open>Which failures are retried\<close>

text \<open>
  C4, as stated, fails: a document without \<open>chart.result[0]\<close> is not a network error,
  and the fetcher asks again after it.
\<close>

theorem shape_failure_is_retried:
  "answer shape_then_good_world \<lparr>req_symbol = ''X'', req_interval = ''5m'', req_range = ''1d''\<rparr> 0
     = Json None
   \<and> trace (snd (fetchStockData ''X'' SUndefined SUndefined 1 shape_then_good_world)) =
    [Request \<lparr>req_symbol = ''X'', req_interval = ''5m'', req_range = ''1d''\<rparr>,
     Wait 500,
     Request \<lparr>req_symbol = ''X'', req_interval = ''5m'', req_range = ''1d''\<rparr>]"
  by code_simp

text \<open>
  C4, amended. The fetcher does not tell failures apart: with \<open>retries = n \<ge> 0\<close> it
  asks again, 500 ms later, after every answer that is not well shaped (a rejected
  fetch, a status that is not ok, a body that does not parse, a document without
  \<open>chart.result[0]\<close>, \<open>indicators.quote[0]\<close> or \<open>meta\<close>) until \<open>n + 1\<close> requests are
  made, and stops at the first well-shaped answer, which it returns as data whatever
  its points: a well-shaped document with no usable point is not retried.
\<close>

theorem retry_on_any_failure:
  assumes "0 \<le> n" and "fetchStockData symbol rng ivl n w = (out, w')"
    and "req = chart_request symbol (default_param ''1d'' rng) (default_param ''5m'' ivl)"
  shows "\<exists>m. 1 \<le> m \<and> m \<le> nat n + 1
       \<and> trace w' = trace w @ spaced req m
       \<and> list_all (\<lambda>resp. \<not> well_shaped resp) (map (answer w req) [0..<m - 1])
       \<and> (well_shaped (answer w req (m - 1)) \<or> m = nat n + 1)
       \<and> (if well_shaped (answer w req (m - 1))
           then out = Data (projr (attempt symbol (answer w req (m - 1))))
           else out = NullResult)"
proof -
  from fetchStockData_shape[OF assms]
  obtain m where m: "1 \<le> m" "m \<le> nat n + 1"
      "trace w' = trace w @ spaced req m"
      "list_all (failing symbol) (map (answer w req) [0..<m - 1])"
      "out = (case attempt symbol (answer w req (m - 1)) of
                  Inr d \<Rightarrow> Data d | Inl e \<Rightarrow> NullResult)"
      "(if failing symbol (answer w req (m - 1)) then m = nat n + 1 else True)"
    by blast
  have a: "list_all (\<lambda>resp. \<not> well_shaped resp) (map (answer w req) [0..<m - 1])"
    using m(4) by (simp add: failing_iff[abs_def])
  have b: "well_shaped (answer w req (m - 1)) \<or> m = nat n + 1"
    using m(6) by (auto simp: failing_iff split: if_splits)
  have c: "(if well_shaped (answer w req (m - 1))
           then out = Data (projr (attempt symbol (answer w req (m - 1))))
           else out = NullResult)"
    using m(5) failing_iff[of symbol "answer w req (m - 1)"]
    by (auto simp: failing_def split: sum.splits)
  show ?thesis using m(1,2,3) a b c by blast
qed

theorem retry_on_any_failure_witness:
  "trace (snd (fetchStockData ''X'' SUndefined SUndefined 1 empty_world)) =
     [Request \<lparr>req_symbol = ''X'', req_interval = ''5m'', req_range = ''1d''\<rparr>]
   \<and> (\<exists>d. fst (fetchStockData ''X'' SUndefined SUndefined 1 empty_world) = Data d \<and> ohlc d = [])"
proof -
  have ws: "well_shaped (answer empty_world r k)" for r k
    by (simp add: answer_def empty_world_def empty_result_def)
  have at: "ohlc (projr (attempt ''X'' (answer empty_world r k))) = []" for r k
    by (simp add: answer_def empty_world_def empty_result_def normalize_result_def good_meta_def
       pair_items_def at_index_def basic_validation_def enumerate_eq_zip upt_conv_Cons)
  from retry_on_any_failure[of 1 "''X''" SUndefined SUndefined empty_world,
      OF _ surjective_pairing refl]
  obtain m where m: "1 \<le> m" "m \<le> nat 1 + 1"
    "trace (snd (fetchStockData ''X'' SUndefined SUndefined 1 empty_world)) = trace empty_world @
       spaced (chart_request ''X'' (default_param ''1d'' SUndefined)
                 (default_param ''5m'' SUndefined)) m"
    "list_all (\<lambda>resp. \<not> well_shaped resp)
       (map (answer empty_world (chart_request ''X'' (default_param ''1d'' SUndefined)
                (default_param ''5m'' SUndefined))) [0..<m - 1])"
    "fst (fetchStockData ''X'' SUndefined SUndefined 1 empty_world) =
       Data (projr (attempt ''X'' (answer empty_world
          (chart_request ''X'' (default_param ''1d'' SUndefined)
             (default_param ''5m'' SUndefined)) (m - 1))))"
    using ws by auto
  have "m = 1"
  proof (rule ccontr)
    assume "m \<noteq> 1"
    then have "m = 2" using m(1,2) by simp
    then show False using m(4) ws by (simp add: upt_conv_Cons)
  qed
  then show ?thesis using m(3,5) at by (simp add: empty_world_def chart_request_def)
qed

section \<open>The normalized series\<close>

lemma fetch_Data_normalize:
  assumes "fetchStockData symbol rng ivl n w = (Data d, w')"
    and "req = chart_request symbol (default_param ''1d'' rng) (default_param ''5m'' ivl)"
  shows "\<exists>k result. answer w req k = Json (Some result) \<and> normalize_result symbol result = Inr d"
proof (cases "0 \<le> n")
  case True
  from fetchStockData_shape[OF True assms]
  obtain m where m: "Data d = (case attempt symbol (answer w req (m - 1)) of
                  Inr d \<Rightarrow> Data d | Inl e \<Rightarrow> NullResult)"
    by blast
  then have a: "attempt symbol (answer w req (m - 1)) = Inr d"
    by (auto split: sum.splits)
  then obtain result where "answer w req (m - 1) = Json (Some result)"
    by (cases "answer w req (m - 1)" rule: well_shaped.cases) auto
  then show ?thesis using a by auto
next
  case False
  then show ?thesis using assms(1) by (simp add: fetchStockData_def fetch_loop_negative)
qed

lemma map_time_pair_items: "map item_time (pair_items ts a b c e) = ts"
  by (simp add: pair_items_def comp_def case_prod_unfold map_snd_enumerate)

lemma normalize_props:
  assumes "normalize_result symbol result = Inr d"
  shows "\<exists>q::quote. indicators_quote0 result = Some q
     \<and> ohlc d = filter basic_validation
          (pair_items (or_empty (timestamp result)) (or_empty (q_open q)) (or_empty (q_high q))
             (or_empty (q_low q)) (or_empty (q_close q)))
     \<and> prices d = map item_c (ohlc d)
     \<and> timestamps d = map item_time (ohlc d)
     \<and> lastUpdated d = (if ohlc d = [] then None else Some (item_time (last (ohlc d))))"
  using assms
  by (auto simp: normalize_result_def Let_def last_conv_nth split: option.splits)

lemma sorted_wrt_time_filter:
  "sorted_wrt R (map item_time xs) \<Longrightarrow> sorted_wrt R (map item_time (filter P xs))"
  by (simp add: sorted_wrt_map sorted_wrt_filter)

lemma good_world_run:
  "fst (fetchStockData ''X'' SUndefined SUndefined 1 good_world) =
     Data \<lparr>ohlc =
        [\<lparr>item_time = 100, item_o = Num (Fin 10), item_h = Num (Fin 11),
            item_l = Num (Fin 9), item_c = Num (Fin 10)\<rparr>,
         \<lparr>item_time = 300, item_o = Num (Fin 12), item_h = Null,
            item_l = Num (Fin 11), item_c = Num (Fin 12)\<rparr>],
        prices = [Num (Fin 10), Num (Fin 12)], timestamps = [100, 300],
        currentPrice = Num (Fin 12), prevClose = Num (Fin 10),
        lastUpdated = Some 300, name = ''KOSPI''\<rparr>"
  by code_simp

text \<open>
  C5, as stated, fails: the fetcher keeps the order of the upstream arrays, so the
  points of a document whose timestamps descend are not time-ascending.
\<close>

theorem points_not_ascending:
  "\<exists>d. fst (fetchStockData ''X'' SUndefined SUndefined 1 unsorted_world) = Data d
     \<and> timestamps d = [200, 100] \<and> \<not> sorted (timestamps d)"
proof -
  have "fst (fetchStockData ''X'' SUndefined SUndefined 1 unsorted_world) =
     Data \<lparr>ohlc =
     [\<lparr>item_time = 200, item_o = Num (Fin 10), item_h = Num (Fin 12),
         item_l = Num (Fin 9), item_c = Num (Fin 11)\<rparr>,
      \<lparr>item_time = 100, item_o = Num (Fin 11), item_h = Num (Fin 12),
         item_l = Num (Fin 9), item_c = Num (Fin 10)\<rparr>],
     prices = [Num (Fin 11), Num (Fin 10)], timestamps = [200, 100],
     currentPrice = Num (Fin 12), prevClose = Num (Fin 10),
     lastUpdated = Some 100, name = ''KOSPI''\<rparr>"
    by code_simp
  then show ?thesis by simp
qed

text \<open>
  C5, amended. The points of a successful result are the upstream points, paired by
  position, that pass the test \<open>c !== null && o !== null\<close>, in upstream order: no point
  has a \<open>null\<close> open or close, the points are time-ascending (weakly, and strictly)
  whenever the upstream timestamps are, and \<open>lastUpdated\<close> is the time of the last
  retained point, or \<open>null\<close> when none is retained.
\<close>

theorem normalized_points:
  assumes "fetchStockData symbol rng ivl n w = (Data d, w')"
  shows "\<exists>(result::chart_result) (q::quote) k.
       answer w (chart_request symbol (default_param ''1d'' rng) (default_param ''5m'' ivl)) k
         = Json (Some result)
     \<and> indicators_quote0 result = Some q
     \<and> ohlc d = filter basic_validation
          (pair_items (or_empty (timestamp result)) (or_empty (q_open q)) (or_empty (q_high q))
             (or_empty (q_low q)) (or_empty (q_close q)))
     \<and> list_all (\<lambda>it. item_o it \<noteq> Null \<and> item_c it \<noteq> Null) (ohlc d)
     \<and> timestamps d = map item_time (ohlc d)
     \<and> (if sorted (or_empty (timestamp result)) then sorted (timestamps d) else True)
     \<and> (if sorted_wrt (<) (or_empty (timestamp result))
         then sorted_wrt (<) (timestamps d) else True)
     \<and> lastUpdated d = (if ohlc d = [] then None else Some (item_time (last (ohlc d))))"
proof -
  from fetch_Data_normalize[OF assms refl] obtain result k
    where k: "answer w (chart_request symbol (default_param ''1d'' rng) (default_param ''5m'' ivl)) k
         = Json (Some result)"
      and n: "normalize_result symbol result = Inr d" by blast
  from normalize_props[OF n] obtain q :: quote where q: "indicators_quote0 result = Some q"
     "ohlc d = filter basic_validation
          (pair_items (or_empty (timestamp result)) (or_empty (q_open q)) (or_empty (q_high q))
             (or_empty (q_low q)) (or_empty (q_close q)))"
     "timestamps d = map item_time (ohlc d)"
     "lastUpdated d = (if ohlc d = [] then None else Some (item_time (last (ohlc d))))"
    by blast
  have nn: "list_all (\<lambda>it. item_o it \<noteq> Null \<and> item_c it \<noteq> Null) (ohlc d)"
    unfolding q(2) by (simp add: list_all_iff basic_validation_def)
  have s1: "sorted_wrt R (or_empty (timestamp result)) \<Longrightarrow> sorted_wrt R (timestamps d)" for R
    unfolding q(2,3) by (rule sorted_wrt_time_filter) (simp add: map_time_pair_items)
  show ?thesis
    apply (rule exI[of _ result], rule exI[of _ q], rule exI[of _ k])
    using k q nn s1[of "(\<le>)"] s1[of "(<)"] by simp
qed

theorem normalized_points_witness:
  "\<exists>d. fst (fetchStockData ''X'' SUndefined SUndefined 1 good_world) = Data d
     \<and> timestamps d = [100, 300] \<and> lastUpdated d = Some 300
     \<and> list_all (\<lambda>it. item_o it \<noteq> Null \<and> item_c it \<noteq> Null) (ohlc d)"
proof -
  obtain d where d: "fst (fetchStockData ''X'' SUndefined SUndefined 1 good_world) = Data d"
    and t: "timestamps d = [100, 300]" "lastUpdated d = Some 300"
    using good_world_run by simp
  have "fetchStockData ''X'' SUndefined SUndefined 1 good_world =
     (Data d, snd (fetchStockData ''X'' SUndefined SUndefined 1 good_world))"
    using d by (metis surjective_pairing)
  from normalized_points[OF this]
  have "list_all (\<lambda>it. item_o it \<noteq> Null \<and> item_c it \<noteq> Null) (ohlc d)"
    by blast
  then show ?thesis using d t by blast
qed

section \<open>Axis labels\<close>

subsection \<open>The calendar\<close>

text \<open>
  The day of the year that \<open>civil_from_days\<close> computes within a cycle of 400 years lies
  between 0 and 365, so the month lies between 1 and 12 and the day between 1 and 31.
\<close>

lemma day_of_year:
  assumes "0 \<le> doe" "doe \<le> 146096"
    and y: "yoe = (doe - doe div 1460 + doe div 36524 - doe div 146096) div 365"
  shows "0 \<le> doe - (365 * yoe + yoe div 4 - yoe div 100)
         \<and> doe - (365 * yoe + yoe div 4 - yoe div 100) \<le> (365 :: int)"
proof -
  define c where "c = (if doe = 146096 then 3 else doe div 36524)"
  define r where "r = doe - 36524 * c"
  define q where "q = r div 1461"
  define s where "s = r - 1461 * q"
  define k where "k = (if s = 1460 then 3 else s div 365)"
  define u where "u = s - 365 * k"
  have c: "0 \<le> c" "c \<le> 3" using assms(1,2) by (auto simp: c_def)
  have r: "0 \<le> r" "r \<le> 36524" "c < 3 \<Longrightarrow> r < 36524"
    using assms(1,2) by (auto simp: r_def c_def)
  have q: "0 \<le> q" "q \<le> 24" using r by (auto simp: q_def)
  have s: "0 \<le> s" "s \<le> 1460" "q = 24 \<Longrightarrow> c < 3 \<Longrightarrow> s < 1460"
    using r by (auto simp: s_def q_def)
  have k: "0 \<le> k" "k \<le> 3" using s by (auto simp: k_def)
  have u: "0 \<le> u" "u \<le> 365" "u = 365 \<Longrightarrow> k = 3" "u = 365 \<Longrightarrow> s = 1460"
    using s(1,2) by (cases "s = 1460"; simp add: u_def k_def; arith)+
  have doe: "doe = 36524 * c + 1461 * q + 365 * k + u"
    by (simp add: u_def s_def r_def)
  have bc: "doe div 36524 - doe div 146096 = c"
    using assms(1,2) by (cases "doe = 146096") (simp_all add: c_def)
  define e where "e = 24 * c + q + 365 * k + u"
  have a: "doe div 1460 = 25 * c + q + e div 1460"
  proof -
    have "doe = (25 * c + q) * 1460 + e" by (simp add: doe e_def)
    then show ?thesis by (simp only: div_mult_self3)
  qed
  have e: "0 \<le> e" "e < 2920" using c q k u(1,2) unfolding e_def by linarith+
  have e1: "e div 1460 = (if 1460 \<le> e then 1 else 0)"
  proof (cases "1460 \<le> e")
    case True
    have "e div 1460 = 1"
      by (rule int_div_pos_eq[of e 1460 1 "e - 1460"]) (use True e in simp_all)
    then show ?thesis using True by simp
  next
    case False
    have "e div 1460 = 0"
      by (rule int_div_pos_eq[of e 1460 0 e]) (use False e in simp_all)
    then show ?thesis using False by simp
  qed
  define Y where "Y = 100 * c + 4 * q + k"
  have N: "doe - doe div 1460 + doe div 36524 - doe div 146096 = 365 * Y + (u - e div 1460)"
    using a bc by (simp add: doe Y_def)
  have ue: "0 \<le> u - e div 1460" "u - e div 1460 < 365"
  proof -
    show "0 \<le> u - e div 1460"
    proof (cases "1460 \<le> e")
      case True
      then have "1 \<le> u" using c q k unfolding e_def by linarith
      then show ?thesis using e1 True by simp
    next
      case False
      then show ?thesis using e1 u(1) by simp
    qed
    show "u - e div 1460 < 365"
    proof (cases "u = 365")
      case True
      then have "k = 3" by (rule u(3))
      then have "1460 \<le> e" using True c q unfolding e_def by linarith
      then show ?thesis using e1 u(2) by simp
    next
      case False
      then have "u < 365" using u(2) by simp
      moreover have "0 \<le> e div 1460" using e1 by simp
      ultimately show ?thesis by simp
    qed
  qed
  have yoe: "yoe = Y"
  proof -
    have "(365 * Y + (u - e div 1460)) div 365 = Y"
      by (rule int_div_pos_eq[of _ 365 Y "u - e div 1460"]) (use ue in simp_all)
    then show ?thesis using y N by simp
  qed
  have y4: "Y div 4 = 25 * c + q"
    by (rule int_div_pos_eq[of Y 4 "25 * c + q" k]) (use k in \<open>simp_all add: Y_def\<close>)
  have y100: "Y div 100 = c"
    by (rule int_div_pos_eq[of Y 100 c "4 * q + k"]) (use k q in \<open>simp_all add: Y_def\<close>)
  have "doe - (365 * yoe + yoe div 4 - yoe div 100) = u"
    unfolding yoe y4 y100 by (simp add: doe Y_def)
  then show ?thesis using u by simp
qed

lemma civil_from_days_range:
  "1 \<le> fst (snd (civil_from_days n)) \<and> fst (snd (civil_from_days n)) \<le> 12
   \<and> 1 \<le> snd (snd (civil_from_days n)) \<and> snd (snd (civil_from_days n)) \<le> 31"
proof -
  define z where "z = n + 719468"
  define doe where "doe = z - z div 146097 * 146097"
  define yoe where "yoe = (doe - doe div 1460 + doe div 36524 - doe div 146096) div 365"
  define doy where "doy = doe - (365 * yoe + yoe div 4 - yoe div 100)"
  define mp where "mp = (5 * doy + 2) div 153"
  have "0 \<le> doe" "doe \<le> 146096" by (auto simp: doe_def)
  from day_of_year[OF this yoe_def] have doy: "0 \<le> doy" "doy \<le> 365"
    by (simp_all add: doy_def)
  have mp: "0 \<le> mp" "mp \<le> 11" using doy by (auto simp: mp_def)
  have d: "1 \<le> doy - (153 * mp + 2) div 5 + 1" "doy - (153 * mp + 2) div 5 + 1 \<le> 31"
    using doy by (auto simp: mp_def)
  define m where "m = (if mp < 10 then mp + 3 else mp - 9)"
  have m: "1 \<le> m" "m \<le> 12"
    using mp by (auto simp: m_def)
  have "civil_from_days n =
      (yoe + z div 146097 * 400 + (if m \<le> 2 then 1 else 0), m, doy - (153 * mp + 2) div 5 + 1)"
    by (simp only: civil_from_days_def Let_def m_def mp_def doy_def yoe_def doe_def z_def)
  then show ?thesis
    using d m by simp
qed

subsection \<open>The template strings and the formats of the specification\<close>

lemma digit_char_decimal_digit:
  assumes "0 \<le> d" "d \<le> 9"
  shows "digit_char d = decimal_digit d"
proof -
  from assms have "d = 0 \<or> d = 1 \<or> d = 2 \<or> d = 3 \<or> d = 4 \<or> d = 5 \<or> d = 6 \<or> d = 7 \<or> d = 8 \<or> d = 9"
    by arith
  then show ?thesis
    by (elim disjE) (simp_all add: digit_char_def decimal_digit_def)
qed

lemma digits_decimal: "0 \<le> n \<Longrightarrow> digits n = decimal n"
proof (induction n rule: digits.induct)
  case (1 n)
  show ?case
  proof (cases "n < 10")
    case True
    then show ?thesis using 1(2)
      by (subst digits.simps, subst decimal.simps) (simp add: digit_char_decimal_digit)
  next
    case False
    then have "digits (n div 10) = decimal (n div 10)" using 1 by simp
    moreover have "digit_char (n mod 10) = decimal_digit (n mod 10)"
      by (rule digit_char_decimal_digit) simp_all
    ultimately show ?thesis using False
      by (subst digits.simps, subst decimal.simps) simp
  qed
qed

lemma int_to_string_decimal: "int_to_string i = signed_decimal i"
  by (auto simp: int_to_string_def signed_decimal_def digits_decimal)

lemma padStart2_two_digits:
  assumes "0 \<le> n" "n \<le> 99"
  shows "padStart2 (int_to_string n) = two_digits n"
proof (cases "n < 10")
  case True
  then have "digits n = [digit_char n]" by (subst digits.simps) simp
  then show ?thesis using True assms(1)
    by (simp add: padStart2_def int_to_string_def two_digits_def digit_char_decimal_digit
        decimal_digit_def)
next
  case False
  have "n div 10 < 10" "0 \<le> n div 10" using assms by simp_all
  then have "digits (n div 10) = [digit_char (n div 10)]" by (subst digits.simps) simp
  then have "digits n = [digit_char (n div 10), digit_char (n mod 10)]"
    using False by (subst digits.simps) simp
  moreover have "digit_char (n div 10) = decimal_digit (n div 10)"
    "digit_char (n mod 10) = decimal_digit (n mod 10)"
    using assms by (simp_all add: digit_char_decimal_digit)
  ultimately show ?thesis using assms(1)
    by (simp add: padStart2_def int_to_string_def two_digits_def)
qed

lemma wall_clock_range:
  "1 \<le> wc_month (wall_clock_of tz ms) \<and> wc_month (wall_clock_of tz ms) \<le> 12
   \<and> 1 \<le> wc_day (wall_clock_of tz ms) \<and> wc_day (wall_clock_of tz ms) \<le> 31
   \<and> 0 \<le> wc_hour (wall_clock_of tz ms) \<and> wc_hour (wall_clock_of tz ms) \<le> 23
   \<and> 0 \<le> wc_minute (wall_clock_of tz ms) \<and> wc_minute (wall_clock_of tz ms) \<le> 59"
proof -
  have "(ms + tz ms) div 3600000 mod 24 < 24" "(ms + tz ms) div 60000 mod 60 < 60"
    by simp_all
  then have "(ms + tz ms) div 3600000 mod 24 \<le> 23" "(ms + tz ms) div 60000 mod 60 \<le> 59"
    by linarith+
  then show ?thesis
    using civil_from_days_range[of "(ms + tz ms) div 86400000"]
    by (simp add: wall_clock_of_def Let_def split_beta)
qed

lemma label_of_date:
  "year_month tz (Some ms) = spec_label YearMonth (wall_clock_of tz ms)"
  "month_day tz (Some ms) = spec_label MonthDay (wall_clock_of tz ms)"
  "hour_minute tz (Some ms) = spec_label HourMinute (wall_clock_of tz ms)"
proof -
  let ?w = "wall_clock_of tz ms"
  have r: "1 \<le> wc_month ?w" "wc_month ?w \<le> 12" "1 \<le> wc_day ?w" "wc_day ?w \<le> 31"
    "0 \<le> wc_hour ?w" "wc_hour ?w \<le> 23" "0 \<le> wc_minute ?w" "wc_minute ?w \<le> 59"
    using wall_clock_range[of tz ms] by simp_all
  have p: "padStart2 (int_to_string (wc_month ?w)) = two_digits (wc_month ?w)"
    "padStart2 (int_to_string (wc_day ?w)) = two_digits (wc_day ?w)"
    "padStart2 (int_to_string (wc_hour ?w)) = two_digits (wc_hour ?w)"
    "padStart2 (int_to_string (wc_minute ?w)) = two_digits (wc_minute ?w)"
    using r by (simp_all add: padStart2_two_digits)
  have g: "getFullYear tz (Some ms) = Some (wc_year ?w)"
    "map_option (\<lambda>m. m + 1) (getMonth tz (Some ms)) = Some (wc_month ?w)"
    "getDate tz (Some ms) = Some (wc_day ?w)"
    "getHours tz (Some ms) = Some (wc_hour ?w)"
    "getMinutes tz (Some ms) = Some (wc_minute ?w)"
    by (simp_all add: getFullYear_def getMonth_def getDate_def getHours_def getMinutes_def
        wall_clock_of_def local_time_def Let_def split_beta)
  show "year_month tz (Some ms) = spec_label YearMonth ?w"
    unfolding year_month_def g using p by (simp add: int_to_string_decimal)
  show "month_day tz (Some ms) = spec_label MonthDay ?w"
    unfolding month_day_def g using p by simp
  show "hour_minute tz (Some ms) = spec_label HourMinute ?w"
    unfolding hour_minute_def g using p by simp
qed

lemma label_of_invalid_date:
  "year_month tz None = nan_label YearMonth"
  "month_day tz None = nan_label MonthDay"
  "hour_minute tz None = nan_label HourMinute"
  by (simp_all add: year_month_def month_day_def hour_minute_def getFullYear_def getMonth_def
      getDate_def getHours_def getMinutes_def padStart2_def)

lemma new_Date_seconds:
  "new_Date (t * 1000) = (if in_date_range t then Some (t * 1000) else None)"
proof -
  have "\<bar>t * 1000\<bar> = \<bar>t\<bar> * 1000" by (simp add: abs_mult)
  then have "(\<bar>t * 1000\<bar> \<le> 8640000000000000) = (\<bar>t\<bar> \<le> 8640000000000)" by linarith
  then show ?thesis by (simp add: new_Date_def in_date_range_def)
qed

lemma format_labels_eq:
  "format_labels tz ts =
     map (\<lambda>t. if in_date_range t
              then spec_label (spec_granularity ts) (wall_clock_of tz (t * 1000))
              else nan_label (spec_granularity ts)) ts"
proof (cases "length ts > 1")
  case True
  then have ne: "ts \<noteq> []" by auto
  have "ts ! (length ts - 1) = last ts" "ts ! 0 = hd ts"
    using ne by (simp_all add: last_conv_nth hd_conv_nth)
  then show ?thesis using True ne
    by (simp add: format_labels_def spec_granularity_def spec_span_granularity_def Let_def
        new_Date_seconds label_of_date label_of_invalid_date)
next
  case False
  then consider "ts = []" | t0 where "ts = [t0]"
    by (cases ts) auto
  then show ?thesis
    by cases (simp_all add: format_labels_def spec_granularity_def spec_span_granularity_def
        Let_def new_Date_seconds label_of_date label_of_invalid_date)
qed

text \<open>
  C3, as stated, fails for a point whose time \<open>Date\<close> cannot represent: every getter of
  an invalid date returns \<open>NaN\<close>. Of two points at 0 s and 9,000,000,000,000 s, more than
  a year apart, the second is labelled \<open>NaN/NaN\<close>, which is no \<open>YYYY/MM\<close>; a single point
  at 9,000,000,000,000 s is labelled \<open>NaN:NaN\<close>, which is no \<open>HH:mm\<close>.
\<close>

theorem invalid_date_label:
  "format_labels (\<lambda>t. 0) [0, 9000000000000] = [''1970/01'', ''NaN/NaN'']
   \<and> format_labels (\<lambda>t. 0) [9000000000000] = [''NaN:NaN'']"
  by code_simp

text \<open>
  C3, amended. \<open>format_labels\<close> produces one label per point, all in the granularity the
  policy of the specification gives for the span from the first to the last point: above
  31,536,000 s \<open>YYYY/MM\<close>, else above 172,800 s \<open>MM/DD\<close>, else \<open>HH:mm\<close>. Both thresholds
  are strict: a span of exactly 31,536,000 s gives \<open>MM/DD\<close> and one of exactly 172,800 s
  gives \<open>HH:mm\<close>; a single point gets \<open>HH:mm\<close>, and the empty sequence no label. For a
  point whose time is at most 8,640,000,000,000 s from the epoch, \<open>YYYY/MM\<close> is the local
  year as a decimal numeral, a slash and the local month in two digits, \<open>MM/DD\<close> the local
  month and the local day of the month in two digits each around a slash, and \<open>HH:mm\<close>
  the local hours and minutes in two digits each around a colon; the month lies between
  1 and 12, the day between 1 and 31, the hours between 0 and 23 and the minutes between
  0 and 59. For a point beyond that range the label is \<open>NaN/NaN\<close> in place of \<open>YYYY/MM\<close>
  and \<open>MM/DD\<close>, and \<open>NaN:NaN\<close> in place of \<open>HH:mm\<close>.
\<close>

theorem format_labels_granularity:
  "format_labels tz ts =
     map (\<lambda>t. if in_date_range t
              then spec_label (spec_granularity ts) (wall_clock_of tz (t * 1000))
              else nan_label (spec_granularity ts)) ts
   \<and> length (format_labels tz ts) = length ts
   \<and> format_labels tz [t, t + 31536000] =
       map (\<lambda>u. if in_date_range u then spec_label MonthDay (wall_clock_of tz (u * 1000))
                else ''NaN/NaN'') [t, t + 31536000]
   \<and> format_labels tz [t, t + 172800] =
       map (\<lambda>u. if in_date_range u then spec_label HourMinute (wall_clock_of tz (u * 1000))
                else ''NaN:NaN'') [t, t + 172800]
   \<and> format_labels tz [t] =
       [if in_date_range t then spec_label HourMinute (wall_clock_of tz (t * 1000))
        else ''NaN:NaN'']
   \<and> format_labels tz [] = []
   \<and> 1 \<le> wc_month (wall_clock_of tz ms) \<and> wc_month (wall_clock_of tz ms) \<le> 12
   \<and> 1 \<le> wc_day (wall_clock_of tz ms) \<and> wc_day (wall_clock_of tz ms) \<le> 31
   \<and> 0 \<le> wc_hour (wall_clock_of tz ms) \<and> wc_hour (wall_clock_of tz ms) \<le> 23
   \<and> 0 \<le> wc_minute (wall_clock_of tz ms) \<and> wc_minute (wall_clock_of tz ms) \<le> 59"
proof -
  have a: "format_labels tz [t, t + 31536000] =
       map (\<lambda>u. if in_date_range u then spec_label MonthDay (wall_clock_of tz (u * 1000))
                else ''NaN/NaN'') [t, t + 31536000]"
    unfolding format_labels_eq[of tz "[t, t + 31536000]"]
    by (simp add: spec_granularity_def spec_span_granularity_def)
  have b: "format_labels tz [t, t + 172800] =
       map (\<lambda>u. if in_date_range u then spec_label HourMinute (wall_clock_of tz (u * 1000))
                else ''NaN:NaN'') [t, t + 172800]"
    unfolding format_labels_eq[of tz "[t, t + 172800]"]
    by (simp add: spec_granularity_def spec_span_granularity_def)
  have c: "format_labels tz [t] =
       [if in_date_range t then spec_label HourMinute (wall_clock_of tz (t * 1000))
        else ''NaN:NaN'']"
    unfolding format_labels_eq[of tz "[t]"]
    by (simp add: spec_granularity_def spec_span_granularity_def)
  have d: "length (format_labels tz ts) = length ts" "format_labels tz [] = []"
    by (simp_all add: format_labels_def)
  show ?thesis
    using format_labels_eq[of tz ts] a b c d wall_clock_range[of tz ms] by simp
qed

text \<open>
  Four sequences in the time zone UTC and one nine hours east of it: sixteen months,
  a week and a minute from 2023-11-14 22:13:20 UTC, and the epoch alone.
\<close>

theorem format_labels_granularity_witness:
  "format_labels (\<lambda>t. 0) [1700000000, 1740000000] = [''2023/11'', ''2025/02'']
   \<and> format_labels (\<lambda>t. 0) [1700000000, 1700600000] = [''11/14'', ''11/21'']
   \<and> format_labels (\<lambda>t. 0) [1700000000, 1700000060] = [''22:13'', ''22:14'']
   \<and> format_labels (\<lambda>t. 32400000) [1700000000, 1700000060] = [''07:13'', ''07:14'']
   \<and> format_labels (\<lambda>t. 0) [0] = [''00:00'']"
proof -
  have s1: "map (\<lambda>t. if in_date_range t
              then spec_label (spec_granularity [1700000000, 1740000000])
                     (wall_clock_of (\<lambda>t. 0) (t * 1000))
              else nan_label (spec_granularity [1700000000, 1740000000]))
            [1700000000, 1740000000] = [''2023/11'', ''2025/02'']"
    by code_simp
  have s2: "map (\<lambda>t. if in_date_range t
              then spec_label (spec_granularity [1700000000, 1700600000])
                     (wall_clock_of (\<lambda>t. 0) (t * 1000))
              else nan_label (spec_granularity [1700000000, 1700600000]))
            [1700000000, 1700600000] = [''11/14'', ''11/21'']"
    by code_simp
  have s3: "map (\<lambda>t. if in_date_range t
              then spec_label (spec_granularity [1700000000, 1700000060])
                     (wall_clock_of (\<lambda>t. 0) (t * 1000))
              else nan_label (spec_granularity [1700000000, 1700000060]))
            [1700000000, 1700000060] = [''22:13'', ''22:14'']"
    by code_simp
  have s4: "map (\<lambda>t. if in_date_range t
              then spec_label (spec_granularity [1700000000, 1700000060])
                     (wall_clock_of (\<lambda>t. 32400000) (t * 1000))
              else nan_label (spec_granularity [1700000000, 1700000060]))
            [1700000000, 1700000060] = [''07:13'', ''07:14'']"
    by code_simp
  have s5: "map (\<lambda>t. if in_date_range t
              then spec_label (spec_granularity [0]) (wall_clock_of (\<lambda>t. 0) (t * 1000))
              else nan_label (spec_granularity [0])) [0] = [''00:00'']"
    by code_simp
  show ?thesis
    using format_labels_granularity[of "\<lambda>t. 0" "[1700000000, 1740000000]", THEN conjunct1]
      format_labels_granularity[of "\<lambda>t. 0" "[1700000000, 1700600000]", THEN conjunct1]
      format_labels_granularity[of "\<lambda>t. 0" "[1700000000, 1700000060]", THEN conjunct1]
      format_labels_granularity[of "\<lambda>t. 32400000" "[1700000000, 1700000060]", THEN conjunct1]
      format_labels_granularity[of "\<lambda>t. 0" "[0]", THEN conjunct1]
    unfolding s1 s2 s3 s4 s5 by simp
qed

section \<open>Evaluation of numerals\<close>

lemma floor_rat_numeral_div [simp]:
  "\<lfloor>(numeral a / numeral b :: rat)\<rfloor> = numeral a div numeral b"
  using floor_divide_of_int_eq[of "numeral a" "numeral b", where ?'a = rat] by simp

lemma floor_rat_one_div [simp]: "\<lfloor>(1 / numeral b :: rat)\<rfloor> = 1 div numeral b"
  using floor_divide_of_int_eq[of 1 "numeral b", where ?'a = rat] by simp

lemma ceiling_rat_numeral_div [simp]:
  "\<lceil>(numeral a / numeral b :: rat)\<rceil> = - (- numeral a div numeral b)"
  using ceiling_divide_eq_div[of "numeral a" "numeral b", where ?'a = rat] by simp

lemmas num_eval = round_double_def floor_log2_def bitlen.simps pow2_def round_half_even_def
  Let_def js_sub_def js_div_def js_mul_def signed_zero_def signed_inf_def fixed2_def
  digits.simps digit_char_def to_string_large_def shortest.simps candidate_ok_def ndigits_def

section \<open>What the handlers leave alone\<close>

lemma fetch_in_eq:
  "fetch_in symbol rng ivl st =
     (fst (fetchStockData symbol rng ivl 1 (outside st)),
      st\<lparr> outside := snd (fetchStockData symbol rng ivl 1 (outside st)) \<rparr>)"
  by (simp add: fetch_in_def split: prod.splits)

lemma spaced_nonempty: "1 \<le> m \<Longrightarrow> spaced req m \<noteq> []"
  by (cases "(req, m)" rule: spaced.cases) auto

lemma fetch_extends_trace:
  "trace (snd (fetchStockData symbol rng ivl 1 w)) \<noteq> trace w"
proof -
  from fetchStockData_shape[of 1 symbol rng ivl w, OF _ surjective_pairing refl]
  obtain m where "1 \<le> m"
    "trace (snd (fetchStockData symbol rng ivl 1 w)) = trace w @
       spaced (chart_request symbol (default_param ''1d'' rng) (default_param ''5m'' ivl)) m"
    by auto
  then show ?thesis using spaced_nonempty by simp
qed

lemma updatePriceDisplay_frame:
  "outside (snd (updatePriceDisplay i cur prev st)) = outside st"
  "indices (snd (updatePriceDisplay i cur prev st)) = indices st"
  "lastFetchedData (snd (updatePriceDisplay i cur prev st)) = lastFetchedData st"
  "charts (snd (updatePriceDisplay i cur prev st)) = charts st"
  "currentChartType (snd (updatePriceDisplay i cur prev st)) = currentChartType st"
  by (simp_all add: updatePriceDisplay_def split: sum.splits)

lemma updateSearchPriceDisplay_frame:
  "outside (snd (updateSearchPriceDisplay cur prev st)) = outside st"
  "indices (snd (updateSearchPriceDisplay cur prev st)) = indices st"
  "lastFetchedData (snd (updateSearchPriceDisplay cur prev st)) = lastFetchedData st"
  "charts (snd (updateSearchPriceDisplay cur prev st)) = charts st"
  "currentChartType (snd (updateSearchPriceDisplay cur prev st)) = currentChartType st"
  by (simp_all add: updateSearchPriceDisplay_def split: sum.splits)

lemma updateChartUI_frame:
  "outside (snd (updateChartUI key d p t st)) = outside st"
  "indices (snd (updateChartUI key d p t st)) = indices st"
  "lastFetchedData (snd (updateChartUI key d p t st)) = lastFetchedData st"
  "currentChartType (snd (updateChartUI key d p t st)) = currentChartType st"
  by (simp_all add: updateChartUI_def Let_def updatePriceDisplay_frame
      updateSearchPriceDisplay_frame split: option.splits)

lemma updateChartUI_chart:
  "charts st key = Some ch \<Longrightarrow>
   charts (snd (updateChartUI key d p t st)) key = Some (render_chart (time_zone st) ch d p t)"
  by (simp add: updateChartUI_def Let_def updatePriceDisplay_frame
      updateSearchPriceDisplay_frame)

lemma show_search_result_frame:
  "outside (snd (show_search_result d symbol st)) = outside st"
  "indices (snd (show_search_result d symbol st)) = indices st"
  "lastFetchedData (snd (show_search_result d symbol st)) = lastFetchedData st"
  "currentChartType (snd (show_search_result d symbol st)) = currentChartType st"
  by (simp_all add: show_search_result_def Let_def updateChartUI_frame split: option.splits)

lemma show_search_result_chart:
  "charts (snd (show_search_result d symbol st)) ''searchResult'' =
     Some (render_chart (time_zone st)
             (case charts st ''searchResult'' of None \<Rightarrow> new_chart | Some ch \<Rightarrow> ch)
             d ''search'' (currentChartType st))"
  by (simp add: show_search_result_def Let_def updateChartUI_chart split: option.splits)

lemma find_index_Some:
  "find_index chartId xs = Some k \<Longrightarrow> k < length xs \<and> idx_id (xs ! k) = chartId"
  by (induction xs arbitrary: k) (auto split: if_splits)

lemma lastData_update_slot [simp]: "lastData (update_slot rng ivl type ix) = lastData ix"
  by (simp add: update_slot_def Let_def)

lemma idx_symbol_update_slot [simp]: "idx_symbol (update_slot rng ivl type ix) = idx_symbol ix"
  by (simp add: update_slot_def Let_def)

lemma map_lastData_update:
  "k < length xs \<Longrightarrow> lastData x = lastData (xs ! k) \<Longrightarrow>
   map lastData (xs[k := x]) = map lastData xs"
  by (simp add: map_update list_update_same_conv)

section \<open>The search handler\<close>

lemma shouldFetchNewData_iff:
  "shouldFetchNewData cache symbol rng ivl \<longleftrightarrow>
     cache = None \<or> (\<exists>c. cache = Some c \<and>
        (c_symbol c \<noteq> symbol \<or> c_range c \<noteq> rng \<or> c_interval c \<noteq> ivl))"
  by (auto simp: shouldFetchNewData_def split: option.splits)

lemma handleSearch_empty:
  assumes "search_symbol st = []"
  shows "outside (snd (handleSearch rng ivl ct st)) = outside st"
    and "lastFetchedData (snd (handleSearch rng ivl ct st)) = lastFetchedData st"
    and "indices (snd (handleSearch rng ivl ct st)) = indices st"
  using assms by (simp_all add: handleSearch_def Let_def)

lemma handleSearch_hit:
  assumes "search_symbol st \<noteq> []" and "lastFetchedData st = Some c"
    and "\<not> shouldFetchNewData (Some c) (search_symbol st)
            (default_param ''5y'' rng) (default_param ''1mo'' ivl)"
  shows "outside (snd (handleSearch rng ivl ct st)) = outside st"
    and "lastFetchedData (snd (handleSearch rng ivl ct st)) = Some c"
    and "indices (snd (handleSearch rng ivl ct st)) = indices st"
    and "charts (snd (handleSearch rng ivl ct st)) ''searchResult'' =
           Some (render_chart (time_zone st)
                   (case charts st ''searchResult'' of None \<Rightarrow> new_chart | Some ch \<Rightarrow> ch)
                   (c_series c) ''search''
                   (currentChartType (snd (handleSearch rng ivl ct st))))"
  using assms
  by (simp_all add: handleSearch_def Let_def show_search_result_frame show_search_result_chart)

lemma handleSearch_miss:
  assumes "search_symbol st \<noteq> []"
    and "shouldFetchNewData (lastFetchedData st) (search_symbol st)
            (default_param ''5y'' rng) (default_param ''1mo'' ivl)"
  shows "outside (snd (handleSearch rng ivl ct st)) =
           snd (fetchStockData (search_symbol st) (default_param ''5y'' rng)
                  (default_param ''1mo'' ivl) 1 (outside st))"
    and "indices (snd (handleSearch rng ivl ct st)) = indices st"
    and "lastFetchedData (snd (handleSearch rng ivl ct st)) =
           (case fst (fetchStockData (search_symbol st) (default_param ''5y'' rng)
                        (default_param ''1mo'' ivl) 1 (outside st)) of
              Data d \<Rightarrow>
                if length (prices d) = 0 then lastFetchedData st
                else Some \<lparr> c_series = d, c_symbol = search_symbol st,
                             c_range = default_param ''5y'' rng,
                             c_interval = default_param ''1mo'' ivl \<rparr>
            | NullResult \<Rightarrow> lastFetchedData st
            | UndefinedResult \<Rightarrow> lastFetchedData st)"
  using assms
  by (simp_all add: handleSearch_def Let_def fetch_in_eq show_search_result_frame
      split: outcome.splits)

section \<open>The chart-controls handler\<close>

lemma handleChartUpdate_search:
  "snd (handleChartUpdate ''search'' rng ivl type st) =
     snd (handleSearch
       (or_else rng (case lastFetchedData st of Some c \<Rightarrow> c_range c | None \<Rightarrow> SUndefined))
       (or_else ivl (case lastFetchedData st of Some c \<Rightarrow> c_interval c | None \<Rightarrow> SUndefined))
       type st)"
  by (simp add: handleChartUpdate_def Let_def)

lemma fetch_slot_eq:
  assumes "k < length (indices st)"
  shows "outside (snd (fetch_slot k st)) =
           snd (fetchStockData (idx_symbol (indices st ! k)) (idx_range (indices st ! k))
                  (idx_interval (indices st ! k)) 1 (outside st))"
    and "lastFetchedData (snd (fetch_slot k st)) = lastFetchedData st"
    and "charts (snd (fetch_slot k st)) = charts st"
    and "time_zone (snd (fetch_slot k st)) = time_zone st"
    and "map lastData (indices (snd (fetch_slot k st))) =
           (case fst (fetchStockData (idx_symbol (indices st ! k)) (idx_range (indices st ! k))
                        (idx_interval (indices st ! k)) 1 (outside st)) of
              Data d \<Rightarrow> (map lastData (indices st))[k := Some d]
            | NullResult \<Rightarrow> map lastData (indices st)
            | UndefinedResult \<Rightarrow> map lastData (indices st))"
    and "fst (fetch_slot k st) =
           (case fst (fetchStockData (idx_symbol (indices st ! k)) (idx_range (indices st ! k))
                        (idx_interval (indices st ! k)) 1 (outside st)) of
              Data d \<Rightarrow> Some d | NullResult \<Rightarrow> None | UndefinedResult \<Rightarrow> None)"
  using assms
  by (simp_all add: fetch_slot_def Let_def fetch_in_eq map_update split: outcome.splits)

lemma handleChartUpdate_no_wrapper:
  assumes "chartId \<noteq> ''search''" and "find_index chartId (indices st) = Some k"
    and "\<not> controls_wrapper st chartId"
  shows "snd (handleChartUpdate chartId rng ivl type st) =
           st\<lparr> indices := (indices st)[k := update_slot rng ivl type (indices st ! k)] \<rparr>"
  using assms by (simp add: handleChartUpdate_def Let_def)

lemma handleChartUpdate_fetch:
  assumes "chartId \<noteq> ''search''" and "find_index chartId (indices st) = Some k"
    and "controls_wrapper st chartId"
    and "truthy rng \<or> lastData (indices st ! k) = None"
    and "ix = update_slot rng ivl type (indices st ! k)"
  shows "outside (snd (handleChartUpdate chartId rng ivl type st)) =
           snd (fetchStockData (idx_symbol ix) (idx_range ix) (idx_interval ix) 1 (outside st))"
    and "lastFetchedData (snd (handleChartUpdate chartId rng ivl type st)) = lastFetchedData st"
    and "map lastData (indices (snd (handleChartUpdate chartId rng ivl type st))) =
           (case fst (fetchStockData (idx_symbol ix) (idx_range ix) (idx_interval ix) 1
                        (outside st)) of
              Data d \<Rightarrow> (map lastData (indices st))[k := Some d]
            | NullResult \<Rightarrow> map lastData (indices st)
            | UndefinedResult \<Rightarrow> map lastData (indices st))"
proof -
  have k: "k < length (indices st)" using find_index_Some[OF assms(2)] by simp
  define st1 where "st1 = st\<lparr> indices := (indices st)[k := ix] \<rparr>"
  have k1: "k < length (indices st1)" and ix1: "indices st1 ! k = ix"
    using k by (simp_all add: st1_def)
  have ml: "map lastData (indices st1) = map lastData (indices st)"
    using k assms(5) by (simp add: st1_def map_lastData_update)
  have run: "handleChartUpdate chartId rng ivl type st =
     (case fetch_slot k st1 of
        (Some d, st2) \<Rightarrow>
          (case charts st2 chartId of
             Some ch \<Rightarrow> updateChartUI chartId d chartId (idx_type (indices st2 ! k)) st2
           | None \<Rightarrow> (None, st2))
      | (None, st2) \<Rightarrow> (None, st2))"
    using assms(1,2,3,4,5) k
    by (auto simp: handleChartUpdate_def Let_def st1_def split: option.splits)
  have f: "outside (snd (handleChartUpdate chartId rng ivl type st)) = outside (snd (fetch_slot k st1))"
    "lastFetchedData (snd (handleChartUpdate chartId rng ivl type st))
       = lastFetchedData (snd (fetch_slot k st1))"
    "indices (snd (handleChartUpdate chartId rng ivl type st)) = indices (snd (fetch_slot k st1))"
    unfolding run
    by (cases "fetch_slot k st1"; cases "fst (fetch_slot k st1)";
        simp add: updateChartUI_frame split: option.splits)+
  have o1: "outside st1 = outside st" and l1: "lastFetchedData st1 = lastFetchedData st"
    by (simp_all add: st1_def)
  show "outside (snd (handleChartUpdate chartId rng ivl type st)) =
           snd (fetchStockData (idx_symbol ix) (idx_range ix) (idx_interval ix) 1 (outside st))"
    unfolding f(1) fetch_slot_eq(1)[OF k1] ix1 o1 ..
  show "lastFetchedData (snd (handleChartUpdate chartId rng ivl type st)) = lastFetchedData st"
    unfolding f(2) fetch_slot_eq(2)[OF k1] l1 ..
  show "map lastData (indices (snd (handleChartUpdate chartId rng ivl type st))) =
           (case fst (fetchStockData (idx_symbol ix) (idx_range ix) (idx_interval ix) 1
                        (outside st)) of
              Data d \<Rightarrow> (map lastData (indices st))[k := Some d]
            | NullResult \<Rightarrow> map lastData (indices st)
            | UndefinedResult \<Rightarrow> map lastData (indices st))"
    unfolding f(3) fetch_slot_eq(5)[OF k1] ix1 o1 ml ..
qed

lemma handleChartUpdate_reuse:
  assumes "chartId \<noteq> ''search''" and "find_index chartId (indices st) = Some k"
    and "\<not> truthy rng" and "lastData (indices st ! k) = Some d"
    and "ix = update_slot rng ivl type (indices st ! k)"
  shows "outside (snd (handleChartUpdate chartId rng ivl type st)) = outside st"
    and "lastFetchedData (snd (handleChartUpdate chartId rng ivl type st)) = lastFetchedData st"
    and "indices (snd (handleChartUpdate chartId rng ivl type st)) = (indices st)[k := ix]"
    and "controls_wrapper st chartId \<Longrightarrow> charts st chartId = Some ch \<Longrightarrow>
         charts (snd (handleChartUpdate chartId rng ivl type st)) chartId =
           Some (render_chart (time_zone st) ch d chartId (idx_type ix))"
proof -
  have k: "k < length (indices st)" using find_index_Some[OF assms(2)] by simp
  define st1 where "st1 = st\<lparr> indices := (indices st)[k := ix] \<rparr>"
  have ld: "lastData (indices st1 ! k) = Some d"
    using k assms(4,5) by (simp add: st1_def)
  have ixk: "indices st1 ! k = ix" using k by (simp add: st1_def)
  have run: "handleChartUpdate chartId rng ivl type st =
     (if \<not> controls_wrapper st chartId then (None, st1)
      else case charts st chartId of
             Some ch \<Rightarrow> updateChartUI chartId d chartId (idx_type ix) st1
           | None \<Rightarrow> (None, st1))"
    using assms(1,2,3,5) assms(4) k
    by (simp add: handleChartUpdate_def Let_def st1_def split: option.splits)
  show "outside (snd (handleChartUpdate chartId rng ivl type st)) = outside st"
    unfolding run by (simp add: updateChartUI_frame st1_def split: option.splits)
  show "lastFetchedData (snd (handleChartUpdate chartId rng ivl type st)) = lastFetchedData st"
    unfolding run by (simp add: updateChartUI_frame st1_def split: option.splits)
  show "indices (snd (handleChartUpdate chartId rng ivl type st)) = (indices st)[k := ix]"
    unfolding run by (simp add: updateChartUI_frame st1_def split: option.splits)
  show "controls_wrapper st chartId \<Longrightarrow> charts st chartId = Some ch \<Longrightarrow>
         charts (snd (handleChartUpdate chartId rng ivl type st)) chartId =
           Some (render_chart (time_zone st) ch d chartId (idx_type ix))"
    unfolding run using updateChartUI_chart[of st1 chartId ch d chartId "idx_type ix"]
    by (simp add: st1_def)
qed

lemma down_world_fails: "fst (fetchStockData symbol rng ivl 1 down_world) = NullResult"
  by (simp add: fetchStockData_def fetch_loop.simps down_world_def do_fetch_def do_wait_def)

lemma good_world_fetch:
  "fetchStockData symbol rng ivl 1 good_world =
     (Data (sample_series\<lparr> name := ''KOSPI'' \<rparr>),
      good_world\<lparr> trace := [Request (chart_request symbol (default_param ''1d'' rng)
                                          (default_param ''5m'' ivl))] \<rparr>)"
  by (simp add: fetchStockData_def fetch_loop.simps good_world_def do_fetch_def
      normalize_result_def good_result_def good_quote_def good_meta_def sample_series_def
      pair_items_def at_index_def basic_validation_def enumerate_eq_zip upt_conv_Cons
      stock_name_def truthy_name_def)

lemma updateIndexData_lastData:
  assumes "k < length (indices st)"
  shows "map lastData (indices (snd (updateIndexData k st))) =
           (case fst (fetchStockData (idx_symbol (indices st ! k)) (idx_range (indices st ! k))
                        (idx_interval (indices st ! k)) 1 (outside st)) of
              Data d \<Rightarrow> (map lastData (indices st))[k := Some d]
            | NullResult \<Rightarrow> map lastData (indices st)
            | UndefinedResult \<Rightarrow> map lastData (indices st))"
    and "lastFetchedData (snd (updateIndexData k st)) = lastFetchedData st"
    and "outside (snd (updateIndexData k st)) =
           snd (fetchStockData (idx_symbol (indices st ! k)) (idx_range (indices st ! k))
                  (idx_interval (indices st ! k)) 1 (outside st))"
  using assms
  by (simp_all add: updateIndexData_def Let_def fetch_in_eq updateChartUI_frame map_update
      split: outcome.splits)

section \<open>A failed fetch and the cache\<close>

text \<open>
  C7. When the fetch a handler issues yields \<open>null\<close>, no slot's cached series changes:
  \<open>updateIndexData\<close> and \<open>handleChartUpdate\<close> leave \<open>lastData\<close> of every index slot as it
  was, \<open>handleSearch\<close> (called directly, or by \<open>handleChartUpdate\<close> for the search slot)
  leaves \<open>lastFetchedData\<close> as it was, and neither touches the other cache.
\<close>

theorem failed_fetch_keeps_cache:
  "(k < length (indices st)
      \<and> fst (fetchStockData (idx_symbol (indices st ! k)) (idx_range (indices st ! k))
               (idx_interval (indices st ! k)) 1 (outside st)) = NullResult
     \<longrightarrow> map lastData (indices (snd (updateIndexData k st))) = map lastData (indices st)
        \<and> lastFetchedData (snd (updateIndexData k st)) = lastFetchedData st)
   \<and> (chartId \<noteq> ''search'' \<and> find_index chartId (indices st) = Some j
      \<and> fst (fetchStockData (idx_symbol (update_slot rng ivl type (indices st ! j)))
               (idx_range (update_slot rng ivl type (indices st ! j)))
               (idx_interval (update_slot rng ivl type (indices st ! j))) 1 (outside st))
          = NullResult
     \<longrightarrow> map lastData (indices (snd (handleChartUpdate chartId rng ivl type st)))
            = map lastData (indices st)
        \<and> lastFetchedData (snd (handleChartUpdate chartId rng ivl type st)) = lastFetchedData st)
   \<and> (fst (fetchStockData (search_symbol st) (default_param ''5y'' rng)
               (default_param ''1mo'' ivl) 1 (outside st)) = NullResult
     \<longrightarrow> lastFetchedData (snd (handleSearch rng ivl type st)) = lastFetchedData st
        \<and> indices (snd (handleSearch rng ivl type st)) = indices st)
   \<and> (fst (fetchStockData (search_symbol st)
               (default_param ''5y'' (or_else rng
                  (case lastFetchedData st of Some c \<Rightarrow> c_range c | None \<Rightarrow> SUndefined)))
               (default_param ''1mo'' (or_else ivl
                  (case lastFetchedData st of Some c \<Rightarrow> c_interval c | None \<Rightarrow> SUndefined)))
               1 (outside st)) = NullResult
     \<longrightarrow> lastFetchedData (snd (handleChartUpdate ''search'' rng ivl type st)) = lastFetchedData st
        \<and> indices (snd (handleChartUpdate ''search'' rng ivl type st)) = indices st)"
proof -
  have a: "map lastData (indices (snd (updateIndexData k st))) = map lastData (indices st)
        \<and> lastFetchedData (snd (updateIndexData k st)) = lastFetchedData st"
    if "k < length (indices st)"
      "fst (fetchStockData (idx_symbol (indices st ! k)) (idx_range (indices st ! k))
               (idx_interval (indices st ! k)) 1 (outside st)) = NullResult"
    using updateIndexData_lastData(1,2)[OF that(1)] that(2) by simp
  have b: "map lastData (indices (snd (handleChartUpdate chartId rng ivl type st)))
            = map lastData (indices st)
        \<and> lastFetchedData (snd (handleChartUpdate chartId rng ivl type st)) = lastFetchedData st"
    if ne: "chartId \<noteq> ''search''" and fi: "find_index chartId (indices st) = Some j"
      and nul: "fst (fetchStockData (idx_symbol (update_slot rng ivl type (indices st ! j)))
               (idx_range (update_slot rng ivl type (indices st ! j)))
               (idx_interval (update_slot rng ivl type (indices st ! j))) 1 (outside st))
          = NullResult"
  proof -
    have j: "j < length (indices st)" using find_index_Some[OF fi] by simp
    have upd: "map lastData ((indices st)[j := update_slot rng ivl type (indices st ! j)])
        = map lastData (indices st)"
      using j by (simp add: map_lastData_update)
    show ?thesis
    proof (cases "controls_wrapper st chartId")
      case False
      then show ?thesis using handleChartUpdate_no_wrapper[OF ne fi False, of rng ivl type] upd
        by simp
    next
      case True
      show ?thesis
      proof (cases "truthy rng \<or> lastData (indices st ! j) = None")
        case fetch: True
        show ?thesis
          using handleChartUpdate_fetch(2,3)[OF ne fi True fetch refl, of ivl type] nul by simp
      next
        case False
        then obtain d where d: "\<not> truthy rng" "lastData (indices st ! j) = Some d" by auto
        show ?thesis
          using handleChartUpdate_reuse(2,3)[OF ne fi d refl, of ivl type] upd by simp
      qed
    qed
  qed
  have c: "lastFetchedData (snd (handleSearch r i type st)) = lastFetchedData st
        \<and> indices (snd (handleSearch r i type st)) = indices st"
    if nul: "fst (fetchStockData (search_symbol st) (default_param ''5y'' r)
               (default_param ''1mo'' i) 1 (outside st)) = NullResult" for r i
  proof (cases "search_symbol st = []")
    case True
    then show ?thesis using handleSearch_empty(2,3)[OF True] by simp
  next
    case ne: False
    show ?thesis
    proof (cases "shouldFetchNewData (lastFetchedData st) (search_symbol st)
            (default_param ''5y'' r) (default_param ''1mo'' i)")
      case True
      then show ?thesis using handleSearch_miss(2,3)[OF ne True, of type] nul by simp
    next
      case False
      then obtain c where c: "lastFetchedData st = Some c"
        by (auto simp: shouldFetchNewData_def split: option.splits)
      then show ?thesis using handleSearch_hit(2,3)[OF ne c, of r i type] False by simp
    qed
  qed
  show ?thesis using a b c by (simp add: handleChartUpdate_search)
qed

theorem failed_fetch_keeps_cache_witness:
  "map lastData (indices (snd (updateIndexData 0 (loaded_page [] down_world))))
     = [Some sample_series, None, None, None]
   \<and> map lastData (indices (snd (handleChartUpdate ''kospi'' (SStr ''1y'') (SStr ''1d'') SNull
          (loaded_page [] down_world))))
     = [Some sample_series, None, None, None]
   \<and> lastFetchedData (snd (handleSearch (SStr ''1y'') (SStr ''1d'') SNull
          (loaded_page ''msft'' down_world)))
     = Some \<lparr> c_series = sample_series, c_symbol = ''AAPL'',
               c_range = SStr ''5y'', c_interval = SStr ''1mo'' \<rparr>
   \<and> lastFetchedData (snd (handleChartUpdate ''search'' (SStr ''1y'') (SStr ''1d'') SNull
          (loaded_page ''msft'' down_world)))
     = Some \<lparr> c_series = sample_series, c_symbol = ''AAPL'',
               c_range = SStr ''5y'', c_interval = SStr ''1mo'' \<rparr>"
  using failed_fetch_keeps_cache[of 0 "loaded_page [] down_world" "''kospi''" 0
          "SStr ''1y''" "SStr ''1d''" SNull]
        failed_fetch_keeps_cache[of 0 "loaded_page ''msft'' down_world" "''kospi''" 0
          "SStr ''1y''" "SStr ''1d''" SNull]
  by (simp add: loaded_page_def fresh_page_def initial_indices_def down_world_fails)

section \<open>When a handler fetches\<close>

lemma handleSearch_trace:
  "trace (outside (snd (handleSearch rng ivl ct st))) \<noteq> trace (outside st) \<longleftrightarrow>
     search_symbol st \<noteq> [] \<and>
     shouldFetchNewData (lastFetchedData st) (search_symbol st)
       (default_param ''5y'' rng) (default_param ''1mo'' ivl)"
proof (cases "search_symbol st = []")
  case True
  then show ?thesis using handleSearch_empty(1)[OF True] by simp
next
  case ne: False
  show ?thesis
  proof (cases "shouldFetchNewData (lastFetchedData st) (search_symbol st)
            (default_param ''5y'' rng) (default_param ''1mo'' ivl)")
    case True
    then show ?thesis using handleSearch_miss(1)[OF ne True] ne fetch_extends_trace by simp
  next
    case False
    then obtain c where c: "lastFetchedData st = Some c"
      by (auto simp: shouldFetchNewData_def split: option.splits)
    then show ?thesis using handleSearch_hit(1)[OF ne c, of rng ivl ct] False by simp
  qed
qed

lemma handleChartUpdate_trace:
  assumes "chartId \<noteq> ''search''" and "find_index chartId (indices st) = Some k"
  shows "trace (outside (snd (handleChartUpdate chartId rng ivl type st))) \<noteq> trace (outside st)
     \<longleftrightarrow> controls_wrapper st chartId \<and> (truthy rng \<or> lastData (indices st ! k) = None)"
proof (cases "controls_wrapper st chartId")
  case False
  then show ?thesis using handleChartUpdate_no_wrapper[OF assms False, of rng ivl type] by simp
next
  case True
  show ?thesis
  proof (cases "truthy rng \<or> lastData (indices st ! k) = None")
    case fetch: True
    show ?thesis
      using handleChartUpdate_fetch(1)[OF assms True fetch refl, of ivl type] True fetch
        fetch_extends_trace by simp
  next
    case False
    then obtain d where d: "\<not> truthy rng" "lastData (indices st ! k) = Some d" by auto
    show ?thesis
      using handleChartUpdate_reuse(1)[OF assms d refl, of ivl type] False by simp
  qed
qed

lemma loaded_page_simps [simp]:
  "indices (loaded_page typed w) =
     initial_indices[0 := (initial_indices ! 0)\<lparr> lastData := Some sample_series \<rparr>]"
  "lastFetchedData (loaded_page typed w) =
     Some \<lparr> c_series = sample_series, c_symbol = ''AAPL'',
            c_range = SStr ''5y'', c_interval = SStr ''1mo'' \<rparr>"
  "outside (loaded_page typed w) = w"
  "controls_wrapper (loaded_page typed w) i"
  "charts (loaded_page typed w) ''kospi'' = Some new_chart"
  "charts (loaded_page typed w) ''searchResult'' = None"
  "time_zone (loaded_page typed w) = (\<lambda>t. 0)"
  "currentChartType (loaded_page typed w) = SStr ''candlestick''"
  by (simp_all add: loaded_page_def fresh_page_def)

lemma sample_world_simps [simp]:
  "trace good_world = []" "trace down_world = []"
  by (simp_all add: good_world_def down_world_def)

lemma search_symbol_loaded:
  "search_symbol (loaded_page [] w) = ''AAPL''"
  "search_symbol (loaded_page ''aapl'' w) = ''AAPL''"
  "search_symbol (loaded_page ''msft'' w) = ''MSFT''"
  by code_simp+

lemma find_kospi: "find_index ''kospi'' (indices (loaded_page typed w)) = Some 0"
  by (simp add: initial_indices_def)

text \<open>
  C1, as stated, fails for the fixed index slots: the first index slot of the sample
  page holds the series a load with its parameters (\<open>^KS11\<close>, \<open>5y\<close>, \<open>1mo\<close>) cached, and
  an update request carrying the same range and interval makes \<open>handleChartUpdate\<close>
  fetch again.
\<close>

theorem index_slot_refetches_same_params:
  "map lastData (indices (snd (updateIndexData 0 (fresh_page good_world))))
     = map lastData (indices (loaded_page [] good_world))
   \<and> idx_symbol (indices (loaded_page [] good_world) ! 0) = ''^KS11''
   \<and> idx_range (indices (loaded_page [] good_world) ! 0) = SStr ''5y''
   \<and> idx_interval (indices (loaded_page [] good_world) ! 0) = SStr ''1mo''
   \<and> trace (outside (snd (handleChartUpdate ''kospi'' (SStr ''5y'') (SStr ''1mo'') SNull
               (loaded_page [] good_world))))
      = [Request \<lparr>req_symbol = ''^KS11'', req_interval = ''1mo'', req_range = ''5y''\<rparr>]"
proof -
  have "map lastData (indices (snd (updateIndexData 0 (fresh_page good_world))))
     = map lastData (indices (loaded_page [] good_world))"
    using updateIndexData_lastData(1)[of 0 "fresh_page good_world"]
    by (simp add: fresh_page_def initial_indices_def good_world_fetch sample_series_def)
  moreover have "trace (outside (snd (handleChartUpdate ''kospi'' (SStr ''5y'') (SStr ''1mo'') SNull
               (loaded_page [] good_world))))
      = [Request \<lparr>req_symbol = ''^KS11'', req_interval = ''1mo'', req_range = ''5y''\<rparr>]"
    using handleChartUpdate_fetch(1)[of "''kospi''" "loaded_page [] good_world" 0 "SStr ''5y''"
        _ "SStr ''1mo''" SNull, OF _ find_kospi _ _ refl]
    by (simp add: initial_indices_def update_slot_def good_world_fetch chart_request_def)
  ultimately show ?thesis by (simp add: initial_indices_def)
qed

text \<open>
  C1, amended. The search slot is as claimed: \<open>handleSearch\<close> fetches exactly when the
  symbol it works with is not empty and there is no cached series or the cached symbol,
  range or interval differs from the requested one; with identical parameters it fetches
  nothing, keeps the cache and draws the chart from the cached series. A fixed index
  slot compares nothing: \<open>handleChartUpdate\<close> fetches exactly when the slot's controls
  exist and a (non-empty) range is passed, whether or not it equals the slot's range, or
  the slot has no cached series; it reuses the cached series only when no range is
  passed.
\<close>

theorem refetch_policy:
  "(trace (outside (snd (handleSearch rng ivl ct st))) \<noteq> trace (outside st) \<longleftrightarrow>
      search_symbol st \<noteq> [] \<and>
      (lastFetchedData st = None \<or>
       (\<exists>c. lastFetchedData st = Some c \<and>
          (c_symbol c \<noteq> search_symbol st \<or> c_range c \<noteq> default_param ''5y'' rng
           \<or> c_interval c \<noteq> default_param ''1mo'' ivl))))
   \<and> (search_symbol st \<noteq> [] \<and> lastFetchedData st = Some c
       \<and> c_symbol c = search_symbol st \<and> c_range c = default_param ''5y'' rng
       \<and> c_interval c = default_param ''1mo'' ivl
      \<longrightarrow> outside (snd (handleSearch rng ivl ct st)) = outside st
         \<and> lastFetchedData (snd (handleSearch rng ivl ct st)) = Some c
         \<and> charts (snd (handleSearch rng ivl ct st)) ''searchResult'' =
             Some (render_chart (time_zone st)
                     (case charts st ''searchResult'' of None \<Rightarrow> new_chart | Some ch \<Rightarrow> ch)
                     (c_series c) ''search''
                     (currentChartType (snd (handleSearch rng ivl ct st)))))
   \<and> (chartId \<noteq> ''search'' \<and> find_index chartId (indices st) = Some k
      \<longrightarrow> (trace (outside (snd (handleChartUpdate chartId rng ivl type st))) \<noteq> trace (outside st)
            \<longleftrightarrow> controls_wrapper st chartId
                 \<and> (truthy rng \<or> lastData (indices st ! k) = None)))
   \<and> (chartId \<noteq> ''search'' \<and> find_index chartId (indices st) = Some k
       \<and> \<not> truthy rng \<and> lastData (indices st ! k) = Some d
       \<and> controls_wrapper st chartId \<and> charts st chartId = Some ch
      \<longrightarrow> outside (snd (handleChartUpdate chartId rng ivl type st)) = outside st
         \<and> lastData (indices (snd (handleChartUpdate chartId rng ivl type st)) ! k) = Some d
         \<and> charts (snd (handleChartUpdate chartId rng ivl type st)) chartId =
             Some (render_chart (time_zone st) ch d chartId
                     (idx_type (update_slot rng ivl type (indices st ! k)))))"
proof -
  have s1: "trace (outside (snd (handleSearch rng ivl ct st))) \<noteq> trace (outside st) \<longleftrightarrow>
      search_symbol st \<noteq> [] \<and>
      (lastFetchedData st = None \<or>
       (\<exists>c. lastFetchedData st = Some c \<and>
          (c_symbol c \<noteq> search_symbol st \<or> c_range c \<noteq> default_param ''5y'' rng
           \<or> c_interval c \<noteq> default_param ''1mo'' ivl)))"
    unfolding handleSearch_trace shouldFetchNewData_iff ..
  have s2: "outside (snd (handleSearch rng ivl ct st)) = outside st
         \<and> lastFetchedData (snd (handleSearch rng ivl ct st)) = Some c
         \<and> charts (snd (handleSearch rng ivl ct st)) ''searchResult'' =
             Some (render_chart (time_zone st)
                     (case charts st ''searchResult'' of None \<Rightarrow> new_chart | Some ch \<Rightarrow> ch)
                     (c_series c) ''search''
                     (currentChartType (snd (handleSearch rng ivl ct st))))"
    if "search_symbol st \<noteq> []" "lastFetchedData st = Some c"
       "c_symbol c = search_symbol st" "c_range c = default_param ''5y'' rng"
       "c_interval c = default_param ''1mo'' ivl"
  proof -
    have "\<not> shouldFetchNewData (Some c) (search_symbol st)
            (default_param ''5y'' rng) (default_param ''1mo'' ivl)"
      using that(3,4,5) by (simp add: shouldFetchNewData_def)
    from handleSearch_hit(1,2,4)[OF that(1,2) this] show ?thesis by simp
  qed
  have f2: "outside (snd (handleChartUpdate chartId rng ivl type st)) = outside st
         \<and> lastData (indices (snd (handleChartUpdate chartId rng ivl type st)) ! k) = Some d
         \<and> charts (snd (handleChartUpdate chartId rng ivl type st)) chartId =
             Some (render_chart (time_zone st) ch d chartId
                     (idx_type (update_slot rng ivl type (indices st ! k))))"
    if "chartId \<noteq> ''search''" "find_index chartId (indices st) = Some k"
       "\<not> truthy rng" "lastData (indices st ! k) = Some d"
       "controls_wrapper st chartId" "charts st chartId = Some ch"
  proof -
    have k: "k < length (indices st)" using find_index_Some[OF that(2)] by simp
    from handleChartUpdate_reuse(1,3)[OF that(1,2,3,4) refl, of ivl type]
         handleChartUpdate_reuse(4)[OF that(1,2,3,4) refl that(5,6), of ivl type]
    show ?thesis using k that(4) by simp
  qed
  have c2: "search_symbol st \<noteq> [] \<and> lastFetchedData st = Some c
       \<and> c_symbol c = search_symbol st \<and> c_range c = default_param ''5y'' rng
       \<and> c_interval c = default_param ''1mo'' ivl
      \<longrightarrow> outside (snd (handleSearch rng ivl ct st)) = outside st
         \<and> lastFetchedData (snd (handleSearch rng ivl ct st)) = Some c
         \<and> charts (snd (handleSearch rng ivl ct st)) ''searchResult'' =
             Some (render_chart (time_zone st)
                     (case charts st ''searchResult'' of None \<Rightarrow> new_chart | Some ch \<Rightarrow> ch)
                     (c_series c) ''search''
                     (currentChartType (snd (handleSearch rng ivl ct st))))"
  proof (intro impI, elim conjE)
    assume "search_symbol st \<noteq> []" "lastFetchedData st = Some c"
       "c_symbol c = search_symbol st" "c_range c = default_param ''5y'' rng"
       "c_interval c = default_param ''1mo'' ivl"
    then show "outside (snd (handleSearch rng ivl ct st)) = outside st
         \<and> lastFetchedData (snd (handleSearch rng ivl ct st)) = Some c
         \<and> charts (snd (handleSearch rng ivl ct st)) ''searchResult'' =
             Some (render_chart (time_zone st)
                     (case charts st ''searchResult'' of None \<Rightarrow> new_chart | Some ch \<Rightarrow> ch)
                     (c_series c) ''search''
                     (currentChartType (snd (handleSearch rng ivl ct st))))"
      by (rule s2)
  qed
  have c3: "chartId \<noteq> ''search'' \<and> find_index chartId (indices st) = Some k
      \<longrightarrow> (trace (outside (snd (handleChartUpdate chartId rng ivl type st))) \<noteq> trace (outside st)
            \<longleftrightarrow> controls_wrapper st chartId
                 \<and> (truthy rng \<or> lastData (indices st ! k) = None))"
  proof (intro impI, elim conjE)
    assume "chartId \<noteq> ''search''" and "find_index chartId (indices st) = Some k"
    then show "trace (outside (snd (handleChartUpdate chartId rng ivl type st))) \<noteq> trace (outside st)
            \<longleftrightarrow> controls_wrapper st chartId
                 \<and> (truthy rng \<or> lastData (indices st ! k) = None)"
      by (rule handleChartUpdate_trace)
  qed
  have c4: "chartId \<noteq> ''search'' \<and> find_index chartId (indices st) = Some k
       \<and> \<not> truthy rng \<and> lastData (indices st ! k) = Some d
       \<and> controls_wrapper st chartId \<and> charts st chartId = Some ch
      \<longrightarrow> outside (snd (handleChartUpdate chartId rng ivl type st)) = outside st
         \<and> lastData (indices (snd (handleChartUpdate chartId rng ivl type st)) ! k) = Some d
         \<and> charts (snd (handleChartUpdate chartId rng ivl type st)) chartId =
             Some (render_chart (time_zone st) ch d chartId
                     (idx_type (update_slot rng ivl type (indices st ! k))))"
  proof (intro impI, elim conjE)
    assume "chartId \<noteq> ''search''" "find_index chartId (indices st) = Some k"
       "\<not> truthy rng" "lastData (indices st ! k) = Some d"
       "controls_wrapper st chartId" "charts st chartId = Some ch"
    then show "outside (snd (handleChartUpdate chartId rng ivl type st)) = outside st
         \<and> lastData (indices (snd (handleChartUpdate chartId rng ivl type st)) ! k) = Some d
         \<and> charts (snd (handleChartUpdate chartId rng ivl type st)) chartId =
             Some (render_chart (time_zone st) ch d chartId
                     (idx_type (update_slot rng ivl type (indices st ! k))))"
      by (rule f2)
  qed
  show ?thesis by (intro conjI s1 c2 c3 c4)
qed

theorem refetch_policy_witness:
  "trace (outside (snd (handleSearch (SStr ''5y'') (SStr ''1mo'') SNull
             (loaded_page ''aapl'' good_world)))) = []
   \<and> lastFetchedData (snd (handleSearch (SStr ''5y'') (SStr ''1mo'') SNull
             (loaded_page ''aapl'' good_world)))
      = Some \<lparr> c_series = sample_series, c_symbol = ''AAPL'',
                c_range = SStr ''5y'', c_interval = SStr ''1mo'' \<rparr>
   \<and> trace (outside (snd (handleSearch (SStr ''1y'') (SStr ''1mo'') SNull
             (loaded_page ''aapl'' good_world)))) \<noteq> []
   \<and> trace (outside (snd (handleChartUpdate ''kospi'' SNull SNull (SStr ''line'')
             (loaded_page [] good_world)))) = []
   \<and> trace (outside (snd (handleChartUpdate ''kospi'' (SStr ''5y'') (SStr ''1mo'') SNull
             (loaded_page [] good_world)))) \<noteq> []"
  using refetch_policy[of "SStr ''5y''" "SStr ''1mo''" SNull "loaded_page ''aapl'' good_world"
          "\<lparr> c_series = sample_series, c_symbol = ''AAPL'',
             c_range = SStr ''5y'', c_interval = SStr ''1mo'' \<rparr>"
          "''kospi''" 0 "SStr ''line''" sample_series new_chart]
        refetch_policy[of "SStr ''1y''" "SStr ''1mo''" SNull "loaded_page ''aapl'' good_world"
          "\<lparr> c_series = sample_series, c_symbol = ''AAPL'',
             c_range = SStr ''5y'', c_interval = SStr ''1mo'' \<rparr>"
          "''kospi''" 0 "SStr ''line''" sample_series new_chart]
        refetch_policy[of SNull SNull SNull "loaded_page [] good_world"
          "\<lparr> c_series = sample_series, c_symbol = ''AAPL'',
             c_range = SStr ''5y'', c_interval = SStr ''1mo'' \<rparr>"
          "''kospi''" 0 "SStr ''line''" sample_series new_chart]
        refetch_policy[of "SStr ''5y''" "SStr ''1mo''" SNull "loaded_page [] good_world"
          "\<lparr> c_series = sample_series, c_symbol = ''AAPL'',
             c_range = SStr ''5y'', c_interval = SStr ''1mo'' \<rparr>"
          "''kospi''" 0 SNull sample_series new_chart]
  by (simp add: search_symbol_loaded find_kospi initial_indices_def)

section \<open>The price display\<close>

lemma is_digit_digit_char: "d < 10 \<Longrightarrow> is_digit (digit_char d)"
proof -
  assume "d < 10"
  then have "nat d < length ''0123456789''" by simp
  then show ?thesis unfolding is_digit_def digit_char_def by (rule nth_mem)
qed

lemma digits_all_digit: "list_all is_digit (digits n)"
proof (induction n rule: digits.induct)
  case (1 n)
  show ?case
  proof (cases "n < 10")
    case True
    then show ?thesis by (subst digits.simps) (simp add: is_digit_digit_char)
  next
    case False
    have "is_digit (digit_char (n mod 10))" by (rule is_digit_digit_char) simp
    then show ?thesis using 1[OF False] False by (subst digits.simps) simp
  qed
qed

lemma two_decimals_split:
  assumes "3 \<le> length m" and "list_all is_digit m"
  shows "two_decimals (take (length m - 2) m @ ''.'' @ drop (length m - 2) m)"
proof -
  let ?s = "take (length m - 2) m @ ''.'' @ drop (length m - 2) m"
  have len: "length ?s = length m + 1" using assms(1) by simp
  have t: "take (length ?s - 3) ?s = take (length m - 2) m"
    using assms(1) by (simp add: len min_def)
  have d: "drop (length ?s - 2) ?s = drop (length m - 2) m"
  proof -
    have "length ?s - 2 = length (take (length m - 2) m) + 1" using assms(1) by simp
    then show ?thesis by (simp del: length_take)
  qed
  have p: "?s ! (length ?s - 3) = CHR ''.''"
  proof -
    have "length ?s - 3 = length (take (length m - 2) m)" using assms(1) by simp
    then show ?thesis by (simp add: nth_append del: length_take)
  qed
  have "list_all is_digit (take (length m - 2) m)" "list_all is_digit (drop (length m - 2) m)"
    using assms(2) by (auto simp: list_all_iff dest: in_set_takeD in_set_dropD)
  then show ?thesis unfolding two_decimals_def t d using p len assms(1) by simp
qed

lemma fixed2_two_decimals:
  assumes "x < 10 ^ 21"
  shows "two_decimals (fixed2 x)"
proof -
  define m where "m = digits \<lfloor>x * 100 + 1 / 2\<rfloor>"
  define m' where "m' = (if length m \<le> 2 then replicate (3 - length m) CHR ''0'' @ m else m)"
  have z: "is_digit CHR ''0''" by (simp add: is_digit_def)
  have "list_all is_digit m" unfolding m_def by (rule digits_all_digit)
  then have dm: "list_all is_digit m'" using z by (simp add: m'_def list_all_iff)
  have lm: "3 \<le> length m'" by (simp add: m'_def)
  have "fixed2 x = take (length m' - 2) m' @ ''.'' @ drop (length m' - 2) m'"
    using assms by (simp add: fixed2_def Let_def m_def m'_def)
  then show ?thesis using two_decimals_split[OF lm dm] by simp
qed

lemma two_decimals_no_minus: "two_decimals (ch # s) \<Longrightarrow> ch \<noteq> CHR ''-''"
proof
  assume td: "two_decimals (ch # s)" and "ch = CHR ''-''"
  then have "4 \<le> length (ch # s)" "list_all is_digit (take (length (ch # s) - 3) (ch # s))"
    by (simp_all add: two_decimals_def)
  then have "is_digit ch" by (cases "length s - 2") simp_all
  then show False using \<open>ch = CHR ''-''\<close> by (simp add: is_digit_def)
qed

lemma toFixed2_two_decimals:
  assumes "\<bar>p\<bar> < 10 ^ 21"
  shows "signed_two_decimals (toFixed2 (Fin p))"
proof (cases "p < 0")
  case True
  then have "fixed2 (- p) \<noteq> [] \<and> two_decimals (fixed2 (- p))"
    using fixed2_two_decimals[of "- p"] assms by (auto simp: two_decimals_def)
  then show ?thesis using True by simp
next
  case False
  then have td: "two_decimals (fixed2 p)" using fixed2_two_decimals[of p] assms by simp
  then obtain ch s where cs: "fixed2 p = ch # s" by (cases "fixed2 p") (auto simp: two_decimals_def)
  then have "ch \<noteq> CHR ''-''" using td two_decimals_no_minus by metis
  then show ?thesis using False cs td by simp
qed

lemma zero_divisor_percent:
  assumes "to_number prev = Fin 0 \<or> to_number prev = NegZero"
  shows "price_percent current prev = PosInf \<or> price_percent current prev = NegInf
         \<or> price_percent current prev = NaN"
proof -
  have "js_div a (to_number prev) = PosInf \<or> js_div a (to_number prev) = NegInf
        \<or> js_div a (to_number prev) = NaN" for a
    using assms by (auto simp: js_div_def Let_def signed_inf_def)
  then have "js_div (price_diff current prev) (to_number prev) = PosInf
      \<or> js_div (price_diff current prev) (to_number prev) = NegInf
      \<or> js_div (price_diff current prev) (to_number prev) = NaN" by blast
  then show ?thesis
    unfolding price_percent_def
    by (auto simp: js_mul_def Let_def signed_inf_def)
qed

lemma digits_nonempty: "digits n \<noteq> []"
  by (subst digits.simps) simp

lemma strip_zeros_subset: "set (strip_zeros s) \<subseteq> set s"
  using set_dropWhileD[of _ "\<lambda>c. c = CHR ''0''" "rev s"] by auto

lemma to_string_large_hd: "to_string_large x \<noteq> [] \<and> is_digit (hd (to_string_large x))"
proof -
  obtain s p where sp: "shortest x (ndigits \<lfloor>x\<rfloor>) 1 = (s, p)" by (cases "shortest x (ndigits \<lfloor>x\<rfloor>) 1")
  define ds where "ds = digits s"
  define sig where "sig = strip_zeros ds"
  have ds: "ds \<noteq> []" "list_all is_digit ds"
    by (simp_all add: ds_def digits_nonempty digits_all_digit)
  have eq: "to_string_large x =
      (if length sig \<le> 1 then take 1 ds else take 1 sig @ ''.'' @ drop 1 sig)
        @ ''e+'' @ digits (int (length ds + p) - 1)"
    unfolding to_string_large_def Let_def sp ds_def sig_def by (simp del: strip_zeros.simps)
  show ?thesis
  proof (cases "length sig \<le> 1")
    case True
    obtain d0 dr where d: "ds = d0 # dr" using ds(1) by (cases ds) auto
    then have "is_digit d0" using ds(2) by simp
    then show ?thesis using True d by (simp add: eq)
  next
    case False
    then obtain s0 sr where s: "sig = s0 # sr" by (cases sig) auto
    then have "s0 \<in> set ds" using strip_zeros_subset[of ds] by (auto simp: sig_def simp del: strip_zeros.simps)
    then have "is_digit s0" using ds(2) by (simp add: list_all_iff)
    then show ?thesis using False s by (simp add: eq)
  qed
qed

lemma fixed2_hd: "fixed2 x \<noteq> [] \<and> is_digit (hd (fixed2 x))"
proof (cases "10 ^ 21 \<le> x")
  case True
  then show ?thesis using to_string_large_hd[of x] by (simp add: fixed2_def)
next
  case False
  then have td: "two_decimals (fixed2 x)" using fixed2_two_decimals[of x] by simp
  then obtain ch s where cs: "fixed2 x = ch # s" by (cases "fixed2 x") (auto simp: two_decimals_def)
  have "4 \<le> length (ch # s)" "list_all is_digit (take (length (ch # s) - 3) (ch # s))"
    using td by (simp_all add: two_decimals_def cs)
  then have "is_digit ch" by (cases "length s - 2") simp_all
  then show ?thesis by (simp add: cs)
qed

lemma toFixed2_hd: "toFixed2 y \<noteq> [] \<and> hd (toFixed2 y) \<noteq> CHR ''+''"
proof -
  have "is_digit ch \<Longrightarrow> ch \<noteq> CHR ''+''" for ch by (auto simp: is_digit_def)
  then have "fixed2 x \<noteq> [] \<and> hd (fixed2 x) \<noteq> CHR ''+''" for x
    using fixed2_hd[of x] by blast
  then show ?thesis by (cases y) simp_all
qed

lemma toFixed2_finite:
  assumes "finite_below_1e21 y"
  shows "signed_two_decimals (toFixed2 y)"
proof (cases y)
  case (Fin p)
  then show ?thesis using assms toFixed2_two_decimals[of p] by simp
next
  case NegZero
  then show ?thesis using toFixed2_two_decimals[of 0] by simp
qed (use assms in simp_all)

lemma sign_is_first:
  "(hd ((if b then ''+'' else []) @ toFixed2 y @ ''%'') = CHR ''+'') = b"
  using toFixed2_hd[of y] by (cases "toFixed2 y") auto

text \<open>
  C8, as stated, fails: \<open>toFixed(2)\<close> gives two decimal places only to numbers below
  1e21 in magnitude. For a current price of 1e21 and a previous close of 1 the percent
  is 1e23, and the change element reads \<open>+1e+23%\<close>.
\<close>

theorem huge_percent_is_exponential:
  "price_percent (Num (Fin (10 ^ 21))) (Num (Fin 1)) = Fin 99999999999999991611392
   \<and> map_sum id change_text (price_display_of (Num (Fin (10 ^ 21))) (Num (Fin 1)))
      = Inr ''+1e+23%''
   \<and> \<not> signed_two_decimals ''1e+23''"
  by (simp add: price_display_of_def price_percent_def price_diff_def num_eval two_decimals_def
      split del: if_split)

text \<open>
  C8, amended. For a numeric current price the price display computes
  \<open>diff = current - previousClose\<close> and \<open>percent = diff / previousClose * 100\<close> and writes
  the sign, \<open>percent.toFixed(2)\<close> and \<open>%\<close>; the text starts with \<open>+\<close> exactly when
  \<open>diff >= 0\<close>, which also selects the class \<open>text-up\<close>. The text of the percent has
  exactly two decimal places whenever the percent is finite, a negative zero included,
  and below 1e21 in magnitude. A current price and previous close of 100 display
  \<open>+0.00%\<close> in the up direction, and the line chart of such a series is drawn in the up
  colour. A zero previous close is not treated apart: the percent is then an infinity
  or NaN and the text is \<open>Infinity\<close>, \<open>-Infinity\<close> or \<open>NaN\<close>.
\<close>

theorem price_display_format:
  "price_display_of (Num x) prev =
      Inr \<lparr> price_number = x,
            price_class = ''current-price '' @
              (if js_ge (price_diff (Num x) prev) (Fin 0) then ''text-up'' else ''text-down''),
            change_text = (if js_ge (price_diff (Num x) prev) (Fin 0) then ''+'' else [])
              @ toFixed2 (price_percent (Num x) prev) @ ''%'',
            change_class = ''change-percent '' @
              (if js_ge (price_diff (Num x) prev) (Fin 0) then ''text-up'' else ''text-down'') \<rparr>
   \<and> price_diff (Num x) prev = js_sub x (to_number prev)
   \<and> price_percent (Num x) prev = js_mul (js_div (js_sub x (to_number prev)) (to_number prev)) (Fin 100)
   \<and> (finite_below_1e21 (price_percent (Num x) prev)
        \<longrightarrow> signed_two_decimals (toFixed2 (price_percent (Num x) prev)))
   \<and> map_sum id (\<lambda>v. hd (change_text v) = CHR ''+'') (price_display_of (Num x) prev)
        = Inr (js_ge (price_diff (Num x) prev) (Fin 0))
   \<and> (to_number prev = Fin 0 \<or> to_number prev = NegZero
        \<longrightarrow> toFixed2 (price_percent (Num x) prev) \<in> set [''Infinity'', ''-Infinity'', ''NaN''])
   \<and> price_display_of (Num (Fin 100)) (Num (Fin 100)) =
        Inr \<lparr> price_number = Fin 100, price_class = ''current-price text-up'',
              change_text = ''+0.00%'', change_class = ''change-percent text-up'' \<rparr>
   \<and> (currentPrice data = Num (Fin 100) \<and> prevClose data = Num (Fin 100)
        \<longrightarrow> chart_datasets (render_chart tz ch data pfx (SStr ''line''))
            = [LineDataset (if pfx = ''search'' then name data else []) (prices data) ''#2ebd85'' True])"
proof -
  have a: "finite_below_1e21 (price_percent (Num x) prev)
        \<longrightarrow> signed_two_decimals (toFixed2 (price_percent (Num x) prev))"
    using toFixed2_finite by blast
  have b: "to_number prev = Fin 0 \<or> to_number prev = NegZero
        \<longrightarrow> toFixed2 (price_percent (Num x) prev) \<in> set [''Infinity'', ''-Infinity'', ''NaN'']"
    using zero_divisor_percent[of prev "Num x"] by auto
  have c: "price_display_of (Num (Fin 100)) (Num (Fin 100)) =
        Inr \<lparr> price_number = Fin 100, price_class = ''current-price text-up'',
              change_text = ''+0.00%'', change_class = ''change-percent text-up'' \<rparr>"
    by (simp add: price_display_of_def price_percent_def price_diff_def num_eval
        split del: if_split)
  have d: "currentPrice data = Num (Fin 100) \<and> prevClose data = Num (Fin 100)
        \<longrightarrow> chart_datasets (render_chart tz ch data pfx (SStr ''line''))
            = [LineDataset (if pfx = ''search'' then name data else []) (prices data) ''#2ebd85'' True]"
    by (simp add: render_chart_def Let_def)
  have e: "map_sum id (\<lambda>v. hd (change_text v) = CHR ''+'') (price_display_of (Num x) prev)
        = Inr (js_ge (price_diff (Num x) prev) (Fin 0))"
    using sign_is_first[of "js_ge (price_diff (Num x) prev) (Fin 0)" "price_percent (Num x) prev"]
    by (simp add: price_display_of_def Let_def)
  have f: "price_display_of (Num x) prev =
      Inr \<lparr> price_number = x,
            price_class = ''current-price '' @
              (if js_ge (price_diff (Num x) prev) (Fin 0) then ''text-up'' else ''text-down''),
            change_text = (if js_ge (price_diff (Num x) prev) (Fin 0) then ''+'' else [])
              @ toFixed2 (price_percent (Num x) prev) @ ''%'',
            change_class = ''change-percent '' @
              (if js_ge (price_diff (Num x) prev) (Fin 0) then ''text-up'' else ''text-down'') \<rparr>"
    by (simp add: price_display_of_def Let_def)
  have g: "price_diff (Num x) prev = js_sub x (to_number prev)"
    "price_percent (Num x) prev = js_mul (js_div (js_sub x (to_number prev)) (to_number prev)) (Fin 100)"
    by (simp_all add: price_diff_def price_percent_def)
  show ?thesis by (intro conjI f g a e b c d)
qed

theorem price_display_format_witness:
  "signed_two_decimals (toFixed2 (price_percent (Num (Fin 12)) (Num (Fin 10))))
   \<and> toFixed2 (price_percent (Num (Fin 12)) (Num (Fin 10))) = ''20.00''
   \<and> price_percent (Num (Fin (- 5))) (Num (Fin (- 5))) = NegZero
   \<and> signed_two_decimals (toFixed2 (price_percent (Num (Fin (- 5))) (Num (Fin (- 5)))))
   \<and> map_sum id change_text (price_display_of (Num (Fin (- 5))) (Num (Fin (- 5)))) = Inr ''+0.00%''
   \<and> toFixed2 (price_percent (Num (Fin 12)) (Num (Fin 0))) = ''Infinity''
   \<and> toFixed2 (price_percent (Num (Fin 12)) Null) = ''Infinity''
   \<and> chart_datasets (render_chart (\<lambda>t. 0) new_chart
        \<lparr> ohlc = [], prices = [Num (Fin 100)], timestamps = [0], currentPrice = Num (Fin 100),
          prevClose = Num (Fin 100), lastUpdated = None, name = ''A'' \<rparr> ''kospi'' (SStr ''line''))
      = [LineDataset [] [Num (Fin 100)] ''#2ebd85'' True]"
proof -
  have p: "price_percent (Num (Fin 12)) (Num (Fin 10)) = Fin 20"
    by (simp add: price_percent_def price_diff_def num_eval split del: if_split)
  have n: "price_percent (Num (Fin (- 5))) (Num (Fin (- 5))) = NegZero"
    by (simp add: price_percent_def price_diff_def num_eval split del: if_split)
  have q: "price_percent (Num (Fin 12)) (Num (Fin 0)) = PosInf"
     "price_percent (Num (Fin 12)) Null = PosInf"
    by (simp_all add: price_percent_def price_diff_def num_eval split del: if_split)
  have t: "fixed2 20 = ''20.00''" "fixed2 0 = ''0.00''"
    by (simp_all add: num_eval split del: if_split)
  have d: "js_ge (price_diff (Num (Fin (- 5))) (Num (Fin (- 5)))) (Fin 0)"
    by (simp add: price_diff_def num_eval)
  have a: "signed_two_decimals (toFixed2 (price_percent (Num (Fin 12)) (Num (Fin 10))))"
    using price_display_format[of "Fin 12" "Num (Fin 10)",
        THEN conjunct2, THEN conjunct2, THEN conjunct2, THEN conjunct1] p
    by simp
  have b: "signed_two_decimals (toFixed2 (price_percent (Num (Fin (- 5))) (Num (Fin (- 5)))))"
    using price_display_format[of "Fin (- 5)" "Num (Fin (- 5))",
        THEN conjunct2, THEN conjunct2, THEN conjunct2, THEN conjunct1] n
    by simp
  have c: "map_sum id change_text (price_display_of (Num (Fin (- 5))) (Num (Fin (- 5)))) = Inr ''+0.00%''"
    using d by (simp add: price_display_of_def Let_def n t)
  have e: "chart_datasets (render_chart (\<lambda>t. 0) new_chart
        \<lparr> ohlc = [], prices = [Num (Fin 100)], timestamps = [0], currentPrice = Num (Fin 100),
          prevClose = Num (Fin 100), lastUpdated = None, name = ''A'' \<rparr> ''kospi'' (SStr ''line''))
      = [LineDataset [] [Num (Fin 100)] ''#2ebd85'' True]"
    using price_display_format[of "Fin 12" "Num (Fin 10)"
        "\<lparr> ohlc = [], prices = [Num (Fin 100)], timestamps = [0], currentPrice = Num (Fin 100),
          prevClose = Num (Fin 100), lastUpdated = None, name = ''A'' \<rparr>" "\<lambda>t. 0" new_chart "''kospi''"]
    by simp
  show ?thesis using a b c e by (simp add: p q t n)
qed

section \<open>Switching the visual mode\<close>

text \<open>
  C6. A request that changes only the visual mode of the search chart should reuse the
  series that was searched: the script keeps \<open>lastFetchedData\<close> "to avoid re-fetching on
  toggle" (line 353), and the comment of \<open>handleSearch\<close> (lines 362 and 363) says that a
  call triggered by a button click should prefer the already searched symbol. The code
  prefers it only when the input is empty (line 364). On the page that has searched
  \<open>AAPL\<close> and cached its series, with \<open>msft\<close> since typed into the input, the click on a
  type button, \<open>handleChartUpdate('search', null, null, 'line')\<close>, requests \<open>MSFT\<close> and
  replaces the cached series and its symbol. With the input empty the same click
  requests nothing.
\<close>

theorem type_toggle_fetches_typed_symbol:
  "currentSearchSymbol (loaded_page ''msft'' good_world) = ''AAPL''
   \<and> lastFetchedData (loaded_page ''msft'' good_world)
       = Some \<lparr> c_series = sample_series, c_symbol = ''AAPL'',
                c_range = SStr ''5y'', c_interval = SStr ''1mo'' \<rparr>
   \<and> stock_code (loaded_page ''msft'' good_world) = ''msft''
   \<and> trace (outside (loaded_page ''msft'' good_world)) = []
   \<and> trace (outside (snd (handleChartUpdate ''search'' SNull SNull (SStr ''line'')
               (loaded_page ''msft'' good_world))))
      = [Request \<lparr>req_symbol = ''MSFT'', req_interval = ''1mo'', req_range = ''5y''\<rparr>]
   \<and> map_option c_symbol (lastFetchedData (snd (handleChartUpdate ''search'' SNull SNull
               (SStr ''line'') (loaded_page ''msft'' good_world)))) = Some ''MSFT''
   \<and> trace (outside (snd (handleChartUpdate ''search'' SNull SNull (SStr ''line'')
               (loaded_page [] good_world)))) = []"
proof -
  have sf: "shouldFetchNewData (lastFetchedData (loaded_page ''msft'' good_world))
       (search_symbol (loaded_page ''msft'' good_world))
       (default_param ''5y'' (SStr ''5y'')) (default_param ''1mo'' (SStr ''1mo''))"
    by (simp add: shouldFetchNewData_def search_symbol_loaded)
  have ne: "search_symbol (loaded_page ''msft'' good_world) \<noteq> []"
    by (simp add: search_symbol_loaded)
  have b: "trace (outside (snd (handleChartUpdate ''search'' SNull SNull (SStr ''line'')
               (loaded_page ''msft'' good_world))))
      = [Request \<lparr>req_symbol = ''MSFT'', req_interval = ''1mo'', req_range = ''5y''\<rparr>]"
    using handleSearch_miss(1)[OF ne sf, of "SStr ''line''"]
    by (simp add: handleChartUpdate_search or_else_def search_symbol_loaded good_world_fetch
        chart_request_def)
  have c: "map_option c_symbol (lastFetchedData (snd (handleChartUpdate ''search'' SNull SNull
               (SStr ''line'') (loaded_page ''msft'' good_world)))) = Some ''MSFT''"
    using handleSearch_miss(3)[OF ne sf, of "SStr ''line''"]
    by (simp add: handleChartUpdate_search or_else_def search_symbol_loaded good_world_fetch
        sample_series_def)
  have a: "currentSearchSymbol (loaded_page ''msft'' good_world) = ''AAPL''"
    "stock_code (loaded_page ''msft'' good_world) = ''msft''"
    "trace (outside (loaded_page ''msft'' good_world)) = []"
    by (simp_all add: loaded_page_def fresh_page_def good_world_def)
  have hit: "\<not> shouldFetchNewData
       (Some \<lparr> c_series = sample_series, c_symbol = ''AAPL'',
                c_range = SStr ''5y'', c_interval = SStr ''1mo'' \<rparr>)
       (search_symbol (loaded_page [] good_world))
       (default_param ''5y'' (SStr ''5y'')) (default_param ''1mo'' (SStr ''1mo''))"
    by (simp add: shouldFetchNewData_def search_symbol_loaded)
  have ne': "search_symbol (loaded_page [] good_world) \<noteq> []"
    by (simp add: search_symbol_loaded)
  have d: "trace (outside (snd (handleChartUpdate ''search'' SNull SNull (SStr ''line'')
               (loaded_page [] good_world)))) = []"
    using handleSearch_hit(1)[OF ne' _ hit, of "SStr ''line''"]
    by (simp add: handleChartUpdate_search or_else_def)
  show ?thesis using a b c d by simp
qed

text \<open>
  Where a request without a range does reuse the cache. For a fixed index slot that
  holds a cached series it fetches nothing, leaves the slot's symbol, range, interval
  and cached series as they were, and, where the slot's controls and chart exist, draws
  the chart from the cached series in the slot's new type. For the search slot the same
  holds of a request whose range and interval are absent or equal to the cached ones,
  as long as the symbol the search handler reads from the page is the cached symbol.
\<close>

lemma mode_switch_reuses_cache:
  "(chartId \<noteq> ''search'' \<and> find_index chartId (indices st) = Some k
       \<and> lastData (indices st ! k) = Some d \<and> \<not> truthy rng
      \<longrightarrow> outside (snd (handleChartUpdate chartId rng ivl type st)) = outside st
         \<and> idx_symbol (indices (snd (handleChartUpdate chartId rng ivl type st)) ! k)
             = idx_symbol (indices st ! k)
         \<and> idx_range (indices (snd (handleChartUpdate chartId rng ivl type st)) ! k)
             = idx_range (indices st ! k)
         \<and> idx_interval (indices (snd (handleChartUpdate chartId rng ivl type st)) ! k)
             = idx_interval (indices st ! k)
         \<and> lastData (indices (snd (handleChartUpdate chartId rng ivl type st)) ! k) = Some d
         \<and> idx_type (indices (snd (handleChartUpdate chartId rng ivl type st)) ! k)
             = (if truthy type then type else idx_type (indices st ! k))
         \<and> (if controls_wrapper st chartId \<and> charts st chartId \<noteq> None
             then charts (snd (handleChartUpdate chartId rng ivl type st)) chartId =
                    Some (render_chart (time_zone st) (the (charts st chartId)) d chartId
                            (if truthy type then type else idx_type (indices st ! k)))
             else True))
   \<and> (lastFetchedData st = Some c \<and> c_symbol c = search_symbol st
       \<and> c_range c \<noteq> SUndefined \<and> c_interval c \<noteq> SUndefined
       \<and> (if truthy rng then rng = c_range c else True)
       \<and> (if truthy ivl then ivl = c_interval c else True)
      \<longrightarrow> outside (snd (handleChartUpdate ''search'' rng ivl type st)) = outside st
         \<and> lastFetchedData (snd (handleChartUpdate ''search'' rng ivl type st)) = Some c
         \<and> (if search_symbol st \<noteq> []
             then charts (snd (handleChartUpdate ''search'' rng ivl type st)) ''searchResult'' =
                    Some (render_chart (time_zone st)
                            (case charts st ''searchResult'' of None \<Rightarrow> new_chart | Some ch \<Rightarrow> ch)
                            (c_series c) ''search''
                            (if truthy type then type else currentChartType st))
             else True))"
proof -
  have fixed: "outside (snd (handleChartUpdate chartId rng ivl type st)) = outside st
         \<and> idx_symbol (indices (snd (handleChartUpdate chartId rng ivl type st)) ! k)
             = idx_symbol (indices st ! k)
         \<and> idx_range (indices (snd (handleChartUpdate chartId rng ivl type st)) ! k)
             = idx_range (indices st ! k)
         \<and> idx_interval (indices (snd (handleChartUpdate chartId rng ivl type st)) ! k)
             = idx_interval (indices st ! k)
         \<and> lastData (indices (snd (handleChartUpdate chartId rng ivl type st)) ! k) = Some d
         \<and> idx_type (indices (snd (handleChartUpdate chartId rng ivl type st)) ! k)
             = (if truthy type then type else idx_type (indices st ! k))
         \<and> (if controls_wrapper st chartId \<and> charts st chartId \<noteq> None
             then charts (snd (handleChartUpdate chartId rng ivl type st)) chartId =
                    Some (render_chart (time_zone st) (the (charts st chartId)) d chartId
                            (if truthy type then type else idx_type (indices st ! k)))
             else True)"
    if h: "chartId \<noteq> ''search''" "find_index chartId (indices st) = Some k"
          "lastData (indices st ! k) = Some d" "\<not> truthy rng"
  proof -
    have k: "k < length (indices st)" using find_index_Some[OF h(2)] by simp
    have ty: "idx_type (update_slot rng ivl type (indices st ! k))
        = (if truthy type then type else idx_type (indices st ! k))"
      using h(4) by (simp add: update_slot_def Let_def)
    have rest: "idx_range (update_slot rng ivl type (indices st ! k)) = idx_range (indices st ! k)"
      "idx_interval (update_slot rng ivl type (indices st ! k)) = idx_interval (indices st ! k)"
      using h(4) by (simp_all add: update_slot_def Let_def)
    have ch: "charts (snd (handleChartUpdate chartId rng ivl type st)) chartId =
                Some (render_chart (time_zone st) (the (charts st chartId)) d chartId
                        (if truthy type then type else idx_type (indices st ! k)))"
      if w: "controls_wrapper st chartId" and cn: "charts st chartId \<noteq> None"
    proof -
      obtain c0 where c0: "charts st chartId = Some c0" using cn by auto
      from handleChartUpdate_reuse(4)[OF h(1,2,4,3) refl w c0, of ivl type]
      show ?thesis using c0 ty by simp
    qed
    from handleChartUpdate_reuse(1,3)[OF h(1,2,4,3) refl, of ivl type]
    show ?thesis using k h(3) ty rest ch by simp
  qed
  have search: "outside (snd (handleChartUpdate ''search'' rng ivl type st)) = outside st
         \<and> lastFetchedData (snd (handleChartUpdate ''search'' rng ivl type st)) = Some c
         \<and> (if search_symbol st \<noteq> []
             then charts (snd (handleChartUpdate ''search'' rng ivl type st)) ''searchResult'' =
                    Some (render_chart (time_zone st)
                            (case charts st ''searchResult'' of None \<Rightarrow> new_chart | Some ch \<Rightarrow> ch)
                            (c_series c) ''search''
                            (if truthy type then type else currentChartType st))
             else True)"
    if h: "lastFetchedData st = Some c" "c_symbol c = search_symbol st"
          "c_range c \<noteq> SUndefined" "c_interval c \<noteq> SUndefined"
          "(if truthy rng then rng = c_range c else True)"
          "(if truthy ivl then ivl = c_interval c else True)"
  proof -
    have r: "default_param ''5y'' (or_else rng (c_range c)) = c_range c"
      using h(3,5) by (cases "c_range c") (auto simp: or_else_def)
    have i: "default_param ''1mo'' (or_else ivl (c_interval c)) = c_interval c"
      using h(4,6) by (cases "c_interval c") (auto simp: or_else_def)
    have run: "snd (handleChartUpdate ''search'' rng ivl type st) =
        snd (handleSearch (or_else rng (c_range c)) (or_else ivl (c_interval c)) type st)"
      using h(1) by (simp add: handleChartUpdate_search)
    have hit: "\<not> shouldFetchNewData (Some c) (search_symbol st)
            (default_param ''5y'' (or_else rng (c_range c)))
            (default_param ''1mo'' (or_else ivl (c_interval c)))"
      using h(2) r i by (simp add: shouldFetchNewData_def)
    show ?thesis
    proof (cases "search_symbol st = []")
      case True
      then show ?thesis unfolding run using handleSearch_empty(1,2)[OF True] h(1) by simp
    next
      case False
      have ct: "currentChartType (snd (handleSearch (or_else rng (c_range c))
                   (or_else ivl (c_interval c)) type st))
                = (if truthy type then type else currentChartType st)"
        using False h(1) hit
        by (cases type)
           (simp_all add: handleSearch_def Let_def show_search_result_frame)
      from handleSearch_hit(1,2,4)[OF False h(1) hit, of type]
      show ?thesis unfolding run using False ct by simp
    qed
  qed
  have c1: "chartId \<noteq> ''search'' \<and> find_index chartId (indices st) = Some k
       \<and> lastData (indices st ! k) = Some d \<and> \<not> truthy rng
      \<longrightarrow> outside (snd (handleChartUpdate chartId rng ivl type st)) = outside st
         \<and> idx_symbol (indices (snd (handleChartUpdate chartId rng ivl type st)) ! k)
             = idx_symbol (indices st ! k)
         \<and> idx_range (indices (snd (handleChartUpdate chartId rng ivl type st)) ! k)
             = idx_range (indices st ! k)
         \<and> idx_interval (indices (snd (handleChartUpdate chartId rng ivl type st)) ! k)
             = idx_interval (indices st ! k)
         \<and> lastData (indices (snd (handleChartUpdate chartId rng ivl type st)) ! k) = Some d
         \<and> idx_type (indices (snd (handleChartUpdate chartId rng ivl type st)) ! k)
             = (if truthy type then type else idx_type (indices st ! k))
         \<and> (if controls_wrapper st chartId \<and> charts st chartId \<noteq> None
             then charts (snd (handleChartUpdate chartId rng ivl type st)) chartId =
                    Some (render_chart (time_zone st) (the (charts st chartId)) d chartId
                            (if truthy type then type else idx_type (indices st ! k)))
             else True)"
  proof (intro impI, elim conjE)
    assume "chartId \<noteq> ''search''" "find_index chartId (indices st) = Some k"
          "lastData (indices st ! k) = Some d" "\<not> truthy rng"
    then show "outside (snd (handleChartUpdate chartId rng ivl type st)) = outside st
         \<and> idx_symbol (indices (snd (handleChartUpdate chartId rng ivl type st)) ! k)
             = idx_symbol (indices st ! k)
         \<and> idx_range (indices (snd (handleChartUpdate chartId rng ivl type st)) ! k)
             = idx_range (indices st ! k)
         \<and> idx_interval (indices (snd (handleChartUpdate chartId rng ivl type st)) ! k)
             = idx_interval (indices st ! k)
         \<and> lastData (indices (snd (handleChartUpdate chartId rng ivl type st)) ! k) = Some d
         \<and> idx_type (indices (snd (handleChartUpdate chartId rng ivl type st)) ! k)
             = (if truthy type then type else idx_type (indices st ! k))
         \<and> (if controls_wrapper st chartId \<and> charts st chartId \<noteq> None
             then charts (snd (handleChartUpdate chartId rng ivl type st)) chartId =
                    Some (render_chart (time_zone st) (the (charts st chartId)) d chartId
                            (if truthy type then type else idx_type (indices st ! k)))
             else True)"
      by (rule fixed)
  qed
  have c2: "lastFetchedData st = Some c \<and> c_symbol c = search_symbol st
       \<and> c_range c \<noteq> SUndefined \<and> c_interval c \<noteq> SUndefined
       \<and> (if truthy rng then rng = c_range c else True)
       \<and> (if truthy ivl then ivl = c_interval c else True)
      \<longrightarrow> outside (snd (handleChartUpdate ''search'' rng ivl type st)) = outside st
         \<and> lastFetchedData (snd (handleChartUpdate ''search'' rng ivl type st)) = Some c
         \<and> (if search_symbol st \<noteq> []
             then charts (snd (handleChartUpdate ''search'' rng ivl type st)) ''searchResult'' =
                    Some (render_chart (time_zone st)
                            (case charts st ''searchResult'' of None \<Rightarrow> new_chart | Some ch \<Rightarrow> ch)
                            (c_series c) ''search''
                            (if truthy type then type else currentChartType st))
             else True)"
  proof (intro impI, elim conjE)
    assume "lastFetchedData st = Some c" "c_symbol c = search_symbol st"
          "c_range c \<noteq> SUndefined" "c_interval c \<noteq> SUndefined"
          "(if truthy rng then rng = c_range c else True)"
          "(if truthy ivl then ivl = c_interval c else True)"
    then show "outside (snd (handleChartUpdate ''search'' rng ivl type st)) = outside st
         \<and> lastFetchedData (snd (handleChartUpdate ''search'' rng ivl type st)) = Some c
         \<and> (if search_symbol st \<noteq> []
             then charts (snd (handleChartUpdate ''search'' rng ivl type st)) ''searchResult'' =
                    Some (render_chart (time_zone st)
                            (case charts st ''searchResult'' of None \<Rightarrow> new_chart | Some ch \<Rightarrow> ch)
                            (c_series c) ''search''
                            (if truthy type then type else currentChartType st))
             else True)"
      by (rule search)
  qed
  show ?thesis by (intro conjI c1 c2)
qed

lemma mode_switch_reuses_cache_example:
  "trace (outside (snd (handleChartUpdate ''kospi'' SNull SNull (SStr ''line'')
             (loaded_page [] good_world)))) = []
   \<and> lastData (indices (snd (handleChartUpdate ''kospi'' SNull SNull (SStr ''line'')
             (loaded_page [] good_world))) ! 0) = Some sample_series
   \<and> charts (snd (handleChartUpdate ''kospi'' SNull SNull (SStr ''line'')
             (loaded_page [] good_world))) ''kospi''
      = Some (render_chart (\<lambda>t. 0) new_chart sample_series ''kospi'' (SStr ''line''))
   \<and> trace (outside (snd (handleChartUpdate ''search'' SNull SNull (SStr ''line'')
             (loaded_page ''aapl'' good_world)))) = []
   \<and> charts (snd (handleChartUpdate ''search'' SNull SNull (SStr ''line'')
             (loaded_page ''aapl'' good_world))) ''searchResult''
      = Some (render_chart (\<lambda>t. 0) new_chart sample_series ''search'' (SStr ''line''))"
  using mode_switch_reuses_cache[of "''kospi''" "loaded_page [] good_world" 0 sample_series
          SNull SNull "SStr ''line''"
          "\<lparr> c_series = sample_series, c_symbol = ''AAPL'',
             c_range = SStr ''5y'', c_interval = SStr ''1mo'' \<rparr>"]
        mode_switch_reuses_cache[of "''kospi''" "loaded_page ''aapl'' good_world" 0 sample_series
          SNull SNull "SStr ''line''"
          "\<lparr> c_series = sample_series, c_symbol = ''AAPL'',
             c_range = SStr ''5y'', c_interval = SStr ''1mo'' \<rparr>"]
  by (simp add: search_symbol_loaded find_kospi initial_indices_def)

section \<open>High and low are not validated\<close>

text \<open>
  C10. Whenever the upstream point at a position has an open and a close that are not
  \<open>null\<close>, the point is in the normalized series with whatever high and low the
  upstream arrays hold at that position, \<open>null\<close> included, and the candlestick dataset
  handed to the renderer has an item with that \<open>h\<close> and \<open>l\<close>.
\<close>

theorem high_low_not_validated:
  assumes "normalize_result symbol result = Inr d"
    and "indicators_quote0 result = Some q"
    and "i < length (or_empty (timestamp result))"
    and "at_index (or_empty (q_open q)) i \<noteq> Null"
    and "at_index (or_empty (q_close q)) i \<noteq> Null"
  shows "\<lparr> item_time = or_empty (timestamp result) ! i,
           item_o = at_index (or_empty (q_open q)) i,
           item_h = at_index (or_empty (q_high q)) i,
           item_l = at_index (or_empty (q_low q)) i,
           item_c = at_index (or_empty (q_close q)) i \<rparr> \<in> set (ohlc d)
       \<and> chart_datasets (render_chart tz ch d prefix (SStr ''candlestick''))
           = [CandleDataset (if prefix = ''search'' then name d else []) (ohlcData (ohlc d))]
       \<and> \<lparr> candle_x = or_empty (timestamp result) ! i * 1000,
             candle_o = at_index (or_empty (q_open q)) i,
             candle_h = at_index (or_empty (q_high q)) i,
             candle_l = at_index (or_empty (q_low q)) i,
             candle_c = at_index (or_empty (q_close q)) i \<rparr> \<in> set (ohlcData (ohlc d))"
proof -
  let ?ts = "or_empty (timestamp result)"
  let ?it = "\<lparr> item_time = ?ts ! i,
           item_o = at_index (or_empty (q_open q)) i,
           item_h = at_index (or_empty (q_high q)) i,
           item_l = at_index (or_empty (q_low q)) i,
           item_c = at_index (or_empty (q_close q)) i \<rparr>"
  from normalize_props[OF assms(1)] assms(2)
  have o: "ohlc d = filter basic_validation
          (pair_items ?ts (or_empty (q_open q)) (or_empty (q_high q))
             (or_empty (q_low q)) (or_empty (q_close q)))"
    by auto
  have "(i, ?ts ! i) \<in> set (enumerate 0 ?ts)"
    using assms(3) by (simp add: in_set_enumerate_eq)
  then have "?it \<in> set (pair_items ?ts (or_empty (q_open q)) (or_empty (q_high q))
             (or_empty (q_low q)) (or_empty (q_close q)))"
    unfolding pair_items_def by (force simp: image_iff)
  moreover have "basic_validation ?it" using assms(4,5) by (simp add: basic_validation_def)
  ultimately have m: "?it \<in> set (ohlc d)" unfolding o by simp
  have "(\<lambda>it. \<lparr> candle_x = item_time it * 1000, candle_o = item_o it, candle_h = item_h it,
               candle_l = item_l it, candle_c = item_c it \<rparr>) ?it \<in> set (ohlcData (ohlc d))"
    unfolding ohlcData_def set_map using m by (rule imageI)
  then show ?thesis using m by (simp add: render_chart_def Let_def)
qed

theorem high_low_not_validated_witness:
  "\<lparr> candle_x = 300000, candle_o = Num (Fin 12), candle_h = Null, candle_l = Num (Fin 11),
     candle_c = Num (Fin 12) \<rparr> \<in> set (ohlcData (ohlc (sample_series\<lparr> name := ''KOSPI'' \<rparr>)))"
proof -
  have n: "normalize_result ''X'' good_result = Inr (sample_series\<lparr> name := ''KOSPI'' \<rparr>)"
    by (simp add: normalize_result_def good_result_def good_quote_def good_meta_def
      sample_series_def pair_items_def at_index_def basic_validation_def enumerate_eq_zip
      upt_conv_Cons stock_name_def truthy_name_def)
  from high_low_not_validated[OF n, of good_quote 2 "\<lambda>t. 0" new_chart "''kospi''"]
  show ?thesis by (simp add: good_result_def good_quote_def at_index_def)
qed

end
